theory Spec2Isabelle
  imports Main
begin

section \<open>Python values\<close>

text \<open>
  The values that flow through \<^verbatim>\<open>app.py\<close>: what \<^verbatim>\<open>json.loads\<close> can return, what
  \<^verbatim>\<open>st.secrets[...]\<close> and \<^verbatim>\<open>os.getenv\<close> can return, and what is handed to the
  Streamlit display calls. A Python \<^verbatim>\<open>str\<close> is represented by its UTF-8 encoding, one
  \<^typ>\<open>char\<close> per byte (a lone surrogate is encoded like any other code point below
  \<^verbatim>\<open>0x10000\<close>, in three bytes). A \<^verbatim>\<open>float\<close> is kept as the decimal numeral it was read
  from, \<open>Decimal neg m e\<close> (with \<open>0 \<le> m\<close>) standing for the double nearest to
  \<open>\<plusminus> m * 10 ^ e\<close>. A \<^verbatim>\<open>dict\<close>
  is its list of items in insertion order, keys distinct.
\<close>

datatype pyfloat = Decimal bool int int | NaN | Infinity bool

datatype py =
    PyNone
  | PyBool bool
  | PyInt int
  | PyFloat pyfloat
  | PyStr string
  | PyList "py list"
  | PyDict "(string \<times> py) list"

text \<open>
  Exceptions. \<open>Exception m\<close> is an instance of \<^verbatim>\<open>Exception\<close> raised by a collaborator, with
  \<^verbatim>\<open>str(e) = m\<close>; \<open>BaseException m\<close> is one outside the \<^verbatim>\<open>Exception\<close> hierarchy
  (\<^verbatim>\<open>KeyboardInterrupt\<close>, \<^verbatim>\<open>SystemExit\<close>, Streamlit's script-control exceptions), which
  \<^verbatim>\<open>except Exception\<close> does not catch. The others are the exceptions the statements of
  \<^verbatim>\<open>main\<close> themselves can raise:
  \<^item> \<open>AttributeError v a\<close>: \<^verbatim>\<open>'T' object has no attribute 'a'\<close>, \<^verbatim>\<open>T\<close> the type of \<open>v\<close>;
  \<^item> \<open>TypeError_join_item i v\<close>: \<^verbatim>\<open>sequence item i: expected str instance, T found\<close>;
  \<^item> \<open>TypeError_join v\<close>: \<^verbatim>\<open>can only join an iterable\<close>;
  \<^item> \<open>TypeError_metric v\<close>: \<^verbatim>\<open>st.metric\<close> rejecting a value that is not an
    \<^verbatim>\<open>int\<close>, \<^verbatim>\<open>float\<close>, \<^verbatim>\<open>str\<close> or \<^verbatim>\<open>None\<close>;
  \<^item> \<open>KeyError k\<close> and \<open>FileNotFoundError\<close>: \<^verbatim>\<open>st.secrets[k]\<close> with no such secret, and
    with no secrets file at all;
  \<^item> \<open>RecursionError\<close> and \<open>ValueError\<close>: \<^verbatim>\<open>json.loads\<close> on a text nested deeper than the
    interpreter allows, and on an integer of more digits than it converts;
  \<^item> \<open>UnicodeEncodeError\<close>: a Streamlit call given a text that has no UTF-8 encoding.
\<close>

datatype exn =
    Exception string
  | BaseException string
  | JSONDecodeError
  | AttributeError py string
  | TypeError_join_item nat py
  | TypeError_join py
  | TypeError_metric py
  | KeyError string
  | FileNotFoundError
  | RecursionError
  | ValueError
  | UnicodeEncodeError

fun is_Exception :: "exn \<Rightarrow> bool" where
  "is_Exception (BaseException m) = False"
| "is_Exception e = True"

text \<open>
  Truthiness, as \<^verbatim>\<open>if x:\<close> and \<^verbatim>\<open>not x\<close> test it. A decimal numeral is read as
  the double \<open>0.0\<close> when it is at most \<open>2 ^ - 1075\<close>, half of the least positive double.
\<close>

fun float_is_zero :: "pyfloat \<Rightarrow> bool" where
  "float_is_zero (Decimal neg m e) =
     (m = 0 \<or> (e < 0 \<and> m * 2 ^ 1075 \<le> 10 ^ nat (- e)))"
| "float_is_zero NaN = False"
| "float_is_zero (Infinity neg) = False"

fun truthy :: "py \<Rightarrow> bool" where
  "truthy PyNone = False"
| "truthy (PyBool b) = b"
| "truthy (PyInt n) = (n \<noteq> 0)"
| "truthy (PyFloat x) = (\<not> float_is_zero x)"
| "truthy (PyStr s) = (s \<noteq> [])"
| "truthy (PyList xs) = (xs \<noteq> [])"
| "truthy (PyDict d) = (d \<noteq> [])"

text \<open>
  Iterating over a \<^verbatim>\<open>str\<close> yields its code points: in the UTF-8 encoding, a code point
  is a byte that is not a continuation byte (\<^verbatim>\<open>10xxxxxx\<close>) with the continuation bytes
  that follow it.
\<close>

definition is_continuation :: "char \<Rightarrow> bool" where
  "is_continuation c = (let n = (of_char c :: nat) in 128 \<le> n \<and> n < 192)"

fun py_chars :: "string \<Rightarrow> string list" where
  "py_chars [] = []"
| "py_chars (c # cs) =
     (case py_chars cs of
        (d # ds) # rest \<Rightarrow>
          if is_continuation d then (c # d # ds) # rest else [c] # (d # ds) # rest
      | _ \<Rightarrow> [[c]])"

text \<open>\<^verbatim>\<open>chr(n)\<close>, encoded.\<close>

definition chr_utf8 :: "int \<Rightarrow> string" where
  "chr_utf8 n =
     (if n < 128 then [char_of n]
      else if n < 2048 then [char_of (192 + n div 64), char_of (128 + n mod 64)]
      else if n < 65536 then
        [char_of (224 + n div 4096), char_of (128 + n div 64 mod 64), char_of (128 + n mod 64)]
      else
        [char_of (240 + n div 262144), char_of (128 + n div 4096 mod 64),
         char_of (128 + n div 64 mod 64), char_of (128 + n mod 64)])"

text \<open>
  A \<^verbatim>\<open>str\<close> can be encoded as UTF-8 unless it holds a surrogate code point, which in
  the representation is a group of three bytes \<^verbatim>\<open>ED A0\<close>..\<^verbatim>\<open>ED BF\<close>, \<^verbatim>\<open>xx\<close>.
\<close>

definition is_surrogate :: "string \<Rightarrow> bool" where
  "is_surrogate cp =
     (case cp of
        [a, b, c] \<Rightarrow> (of_char a :: nat) = 237 \<and> 160 \<le> (of_char b :: nat)
      | _ \<Rightarrow> False)"

definition encodable :: "string \<Rightarrow> bool" where
  "encodable s = (filter is_surrogate (py_chars s) = [])"

text \<open>
  Whether \<^verbatim>\<open>str(e)\<close> can be encoded. The message of an exception raised by a statement
  of \<^verbatim>\<open>main\<close> or by the decoder is made of fixed words, type names and \<^verbatim>\<open>repr\<close>s,
  which escape a surrogate; the message of a collaborator's exception is any text.
\<close>

fun str_encodable :: "exn \<Rightarrow> bool" where
  "str_encodable (Exception m) = encodable m"
| "str_encodable (BaseException m) = encodable m"
| "str_encodable (AttributeError v a) = encodable a"
| "str_encodable e = True"

text \<open>\<^verbatim>\<open>sep.join(xs)\<close> on a list of strings.\<close>

fun join :: "string \<Rightarrow> string list \<Rightarrow> string" where
  "join sep [] = []"
| "join sep [x] = x"
| "join sep (x # y # ys) = x @ sep @ join sep (y # ys)"

text \<open>
  \<^verbatim>\<open>sep.join(v)\<close> on any value: a list must hold strings only (the first other item
  raises), a string is joined code point by code point, a dict key by key, and a value
  that is not iterable raises.
\<close>

fun str_items :: "nat \<Rightarrow> py list \<Rightarrow> exn + string list" where
  "str_items i [] = Inr []"
| "str_items i (PyStr s # xs) =
     (case str_items (Suc i) xs of Inl e \<Rightarrow> Inl e | Inr ss \<Rightarrow> Inr (s # ss))"
| "str_items i (x # xs) = Inl (TypeError_join_item i x)"

fun str_join :: "string \<Rightarrow> py \<Rightarrow> exn + string" where
  "str_join sep (PyList xs) =
     (case str_items 0 xs of Inl e \<Rightarrow> Inl e | Inr ss \<Rightarrow> Inr (join sep ss))"
| "str_join sep (PyStr s) = Inr (join sep (py_chars s))"
| "str_join sep (PyDict d) = Inr (join sep (map fst d))"
| "str_join sep v = Inl (TypeError_join v)"

text \<open>\<^verbatim>\<open>v.get(key, dflt)\<close>: only a dict has the method.\<close>

fun py_get :: "py \<Rightarrow> string \<Rightarrow> py \<Rightarrow> exn + py" where
  "py_get (PyDict d) key dflt =
     Inr (case map_of d key of None \<Rightarrow> dflt | Some v \<Rightarrow> v)"
| "py_get v key dflt = Inl (AttributeError v ''get'')"

text \<open>\<^verbatim>\<open>d[k] = v\<close> and \<^verbatim>\<open>dict(pairs)\<close>: a later value replaces an earlier one in place.\<close>

fun dict_set :: "(string \<times> py) list \<Rightarrow> string \<Rightarrow> py \<Rightarrow> (string \<times> py) list" where
  "dict_set [] k v = [(k, v)]"
| "dict_set ((k', v') # d) k v =
     (if k' = k then (k, v) # d else (k', v') # dict_set d k v)"

definition py_dict :: "(string \<times> py) list \<Rightarrow> (string \<times> py) list" where
  "py_dict pairs = foldl (\<lambda>d (k, v). dict_set d k v) [] pairs"

section \<open>The JSON decoder\<close>

text \<open>
  \<^verbatim>\<open>json.loads\<close> of the standard library, on a \<^verbatim>\<open>str\<close>, with its default
  settings: the grammar of \<^verbatim>\<open>json.decoder\<close> and \<^verbatim>\<open>json.scanner\<close>, including the
  constants \<^verbatim>\<open>NaN\<close>, \<^verbatim>\<open>Infinity\<close> and \<^verbatim>\<open>-Infinity\<close> that it accepts. Every
  failure of the grammar is a \<^verbatim>\<open>JSONDecodeError\<close>. The decoder skips the same
  whitespace between any two tokens, so the text is cut into tokens first, up to the
  first place where no token can be read. It is the C scanner (the one in use by
  default) that is modelled, with the two limits of the interpreter that it meets: the
  recursion limit and the limit on the digits of an integer.
\<close>

text \<open>
  The interpreter where \<^verbatim>\<open>json.loads\<close> is called: \<open>recursion_limit\<close> is the number of
  recursive calls still allowed there (the recursion limit less the depth of the call
  stack), \<open>int_max_str_digits\<close> is \<^verbatim>\<open>sys.get_int_max_str_digits()\<close> (4300 by default,
  0 for no limit, and 0 for an interpreter older than the limit).
\<close>

record interpreter =
  recursion_limit :: nat
  int_max_str_digits :: nat

definition WHITESPACE :: "char \<Rightarrow> bool" where
  "WHITESPACE c = (c = CHR '' '' \<or> c = CHR 0x09 \<or> c = CHR 0x0A \<or> c = CHR 0x0D)"

definition is_digit :: "char \<Rightarrow> bool" where
  "is_digit c = (let n = (of_char c :: nat) in 48 \<le> n \<and> n \<le> 57)"

definition digit_val :: "char \<Rightarrow> nat" where
  "digit_val c = of_char c - 48"

definition int_of_digits :: "string \<Rightarrow> int" where
  "int_of_digits ds = foldl (\<lambda>n c. 10 * n + int (digit_val c)) 0 ds"

definition hex_val :: "char \<Rightarrow> int option" where
  "hex_val c =
     (let n = (of_char c :: int) in
      if 48 \<le> n \<and> n \<le> 57 then Some (n - 48)
      else if 65 \<le> n \<and> n \<le> 70 then Some (n - 55)
      else if 97 \<le> n \<and> n \<le> 102 then Some (n - 87)
      else None)"

text \<open>
  \<^verbatim>\<open>_decode_uXXXX\<close>: the four characters after \<^verbatim>\<open>\u\<close>, each a hexadecimal digit
  (as the C scanner, the one in use by default, requires).
\<close>

definition decode_uXXXX :: "char \<Rightarrow> char \<Rightarrow> char \<Rightarrow> char \<Rightarrow> int option" where
  "decode_uXXXX a b c d =
     (case (hex_val a, hex_val b, hex_val c, hex_val d) of
        (Some w, Some x, Some y, Some z) \<Rightarrow> Some (((w * 16 + x) * 16 + y) * 16 + z)
      | _ \<Rightarrow> None)"

text \<open>\<^verbatim>\<open>BACKSLASH\<close>: the one-character escapes.\<close>

definition BACKSLASH :: "char \<Rightarrow> char option" where
  "BACKSLASH c =
     (if c = CHR 0x22 then Some (CHR 0x22)
      else if c = CHR 0x5C then Some (CHR 0x5C)
      else if c = CHR ''/'' then Some (CHR ''/'')
      else if c = CHR ''b'' then Some (CHR 0x08)
      else if c = CHR ''f'' then Some (CHR 0x0C)
      else if c = CHR ''n'' then Some (CHR 0x0A)
      else if c = CHR ''r'' then Some (CHR 0x0D)
      else if c = CHR ''t'' then Some (CHR 0x09)
      else None)"

text \<open>
  A \<^verbatim>\<open>\u\<close> escape, from the character after the \<^verbatim>\<open>u\<close>: the code point and the text
  after the escape. A high surrogate followed by a \<^verbatim>\<open>\u\<close> escape of a low surrogate is
  one code point.
\<close>

definition unicode_escape :: "string \<Rightarrow> (int \<times> string) option" where
  "unicode_escape cs1 =
     (case cs1 of
        h1 # h2 # h3 # h4 # cs2 \<Rightarrow>
          (case decode_uXXXX h1 h2 h3 h4 of
             None \<Rightarrow> None
           | Some uni \<Rightarrow>
               if 55296 \<le> uni \<and> uni \<le> 56319 \<and> take 2 cs2 = [CHR 0x5C, CHR ''u''] then
                 (case drop 2 cs2 of
                    g1 # g2 # g3 # g4 # cs3 \<Rightarrow>
                      (case decode_uXXXX g1 g2 g3 g4 of
                         None \<Rightarrow> None
                       | Some uni2 \<Rightarrow>
                           if 56320 \<le> uni2 \<and> uni2 \<le> 57343 then
                             Some (65536 + ((uni - 55296) * 1024 + (uni2 - 56320)), cs3)
                           else Some (uni, cs2))
                  | _ \<Rightarrow> None)
               else Some (uni, cs2))
      | _ \<Rightarrow> None)"

lemma unicode_escape_shorter:
  assumes "unicode_escape cs = Some (u, rest)"
  shows "length rest < length cs"
proof -
  obtain h1 h2 h3 h4 cs2 where cs: "cs = h1 # h2 # h3 # h4 # cs2"
    using assms by (auto simp: unicode_escape_def split: list.splits)
  have "rest = cs2 \<or> (\<exists>g1 g2 g3 g4. drop 2 cs2 = g1 # g2 # g3 # g4 # rest)"
    using assms unfolding cs unicode_escape_def
    by (auto split: option.splits if_splits list.splits)
  then have "length rest \<le> length cs2"
  proof
    assume "rest = cs2"
    then show ?thesis by simp
  next
    assume "\<exists>g1 g2 g3 g4. drop 2 cs2 = g1 # g2 # g3 # g4 # rest"
    then obtain g1 g2 g3 g4 where d: "drop 2 cs2 = g1 # g2 # g3 # g4 # rest" by blast
    have "length (drop 2 cs2) = length rest + 4" unfolding d by simp
    then show ?thesis by simp
  qed
  then show ?thesis
    unfolding cs by simp
qed

definition prepend :: "string \<Rightarrow> (string \<times> string) option \<Rightarrow> (string \<times> string) option" where
  "prepend chunk r = (case r of None \<Rightarrow> None | Some (s, rest) \<Rightarrow> Some (chunk @ s, rest))"

text \<open>
  \<^verbatim>\<open>py_scanstring\<close>, from the character after the opening quote: the decoded string
  and the text after the closing quote. A control character, an unknown escape and a
  missing closing quote are errors.
\<close>

function scanstring :: "string \<Rightarrow> (string \<times> string) option" where
  "scanstring [] = None"
| "scanstring (c # cs) =
     (if c = CHR 0x22 then Some ([], cs)
      else if c = CHR 0x5C then
        (case cs of
           [] \<Rightarrow> None
         | esc # cs1 \<Rightarrow>
             if esc \<noteq> CHR ''u'' then
               (case BACKSLASH esc of
                  None \<Rightarrow> None
                | Some ch \<Rightarrow> prepend [ch] (scanstring cs1))
             else
               (case unicode_escape cs1 of
                  None \<Rightarrow> None
                | Some (uni, cs2) \<Rightarrow> prepend (chr_utf8 uni) (scanstring cs2)))
      else if (of_char c :: nat) < 32 then None
      else prepend [c] (scanstring cs))"
  by pat_completeness auto
termination
  by (relation "measure length") (auto dest: unicode_escape_shorter)

lemma scanstring_shorter: "scanstring cs = Some (s, rest) \<Longrightarrow> length rest < length cs"
proof (induction cs arbitrary: s rest rule: scanstring.induct)
  case 1
  then show ?case by simp
next
  case (2 c cs)
  show ?case
  proof (cases "c = CHR 0x22")
    case True
    with "2.prems" show ?thesis by simp
  next
    case quote: False
    show ?thesis
    proof (cases "c = CHR 0x5C")
      case False
      with quote "2.prems" obtain s' where "scanstring cs = Some (s', rest)"
        by (auto simp: prepend_def split: if_splits option.splits)
      with "2.IH"(3) [OF quote False] quote False "2.prems" show ?thesis
        by (auto split: if_splits)
    next
      case True
      with quote "2.prems" obtain esc cs1 where cs: "cs = esc # cs1"
        by (cases cs) auto
      show ?thesis
      proof (cases "esc = CHR ''u''")
        case False
        with quote True cs "2.prems" obtain ch s' where
          "BACKSLASH esc = Some ch" "scanstring cs1 = Some (s', rest)"
          by (auto simp: prepend_def split: option.splits)
        with "2.IH"(1) [OF quote True cs False] show ?thesis
          unfolding cs by fastforce
      next
        case u: True
        with quote True cs "2.prems" obtain uni cs2 s' where
          esc: "unicode_escape cs1 = Some (uni, cs2)" and "scanstring cs2 = Some (s', rest)"
          by (auto simp: prepend_def split: option.splits)
        with "2.IH"(2) [OF quote True cs _ esc] u have "length rest < length cs2"
          by fastforce
        with unicode_escape_shorter [OF esc] show ?thesis
          unfolding cs by simp
      qed
    qed
  qed
qed

text \<open>
  \<^verbatim>\<open>NUMBER_RE\<close>, \<^verbatim>\<open>(-?(?:0|[1-9]\d*))(\.\d+)?([eE][-+]?\d+)?\<close>, group by group: each
  function returns what its group matched and the text after it.
\<close>

definition integer_part :: "string \<Rightarrow> (bool \<times> string \<times> string) option" where
  "integer_part cs =
     (let neg = (take 1 cs = ''-''); cs0 = (if neg then drop 1 cs else cs) in
      case cs0 of
        [] \<Rightarrow> None
      | d # r \<Rightarrow>
          if d = CHR ''0'' then Some (neg, [d], r)
          else if is_digit d then Some (neg, d # takeWhile is_digit r, dropWhile is_digit r)
          else None)"

definition frac_part :: "string \<Rightarrow> string \<times> string" where
  "frac_part cs =
     (case cs of
        p # f \<Rightarrow>
          if p = CHR ''.'' \<and> takeWhile is_digit f \<noteq> []
          then (takeWhile is_digit f, dropWhile is_digit f) else ([], cs)
      | [] \<Rightarrow> ([], cs))"

definition exp_part :: "string \<Rightarrow> int option \<times> string" where
  "exp_part cs =
     (case cs of
        e # x \<Rightarrow>
          if e = CHR ''e'' \<or> e = CHR ''E'' then
            (let signed = (take 1 x = ''-'' \<or> take 1 x = ''+'');
                 ds = (if signed then drop 1 x else x) in
             if takeWhile is_digit ds \<noteq> [] then
               (Some (if take 1 x = ''-'' then - int_of_digits (takeWhile is_digit ds)
                      else int_of_digits (takeWhile is_digit ds)),
                dropWhile is_digit ds)
             else (None, cs))
          else (None, cs)
      | [] \<Rightarrow> (None, cs))"

text \<open>
  What the scanner reads where a value may stand and no container opens: a value as it
  is; an integer still to be converted, with its sign and its digits; or one of the three
  constants, still to be looked up.
\<close>

datatype scalar = Value py | Integer bool string | Constant pyfloat

text \<open>
  A match of \<^verbatim>\<open>NUMBER_RE\<close> is an \<^verbatim>\<open>int\<close> when neither the fraction nor the exponent
  matched, and a \<^verbatim>\<open>float\<close> otherwise.
\<close>

definition match_number :: "string \<Rightarrow> (scalar \<times> string) option" where
  "match_number cs =
     (case integer_part cs of
        None \<Rightarrow> None
      | Some (neg, integer, cs1) \<Rightarrow>
          (case frac_part cs1 of
             (frac, cs2) \<Rightarrow>
               (case exp_part cs2 of
                  (exp, cs3) \<Rightarrow>
                    if frac = [] \<and> exp = None then Some (Integer neg integer, cs3)
                    else
                      Some (Value (PyFloat (Decimal neg (int_of_digits (integer @ frac))
                                      ((case exp of None \<Rightarrow> 0 | Some x \<Rightarrow> x) - int (length frac)))),
                            cs3))))"

lemma integer_part_shorter: "integer_part cs = Some (neg, ds, rest) \<Longrightarrow> length rest < length cs"
proof -
  assume a: "integer_part cs = Some (neg, ds, rest)"
  define cs0 where "cs0 = (if take 1 cs = ''-'' then drop 1 cs else cs)"
  have le: "length cs0 \<le> length cs" by (simp add: cs0_def)
  from a obtain d r where cs0: "cs0 = d # r" and "rest = r \<or> rest = dropWhile is_digit r"
    unfolding integer_part_def cs0_def [symmetric] Let_def
    by (auto split: list.splits if_splits)
  moreover have "length (dropWhile is_digit r) \<le> length r" by (rule length_dropWhile_le)
  ultimately have "length rest < length cs0" by auto
  with le show ?thesis by simp
qed

lemma frac_part_shorter: "length (snd (frac_part cs)) \<le> length cs"
proof (cases cs)
  case Nil
  then show ?thesis by (simp add: frac_part_def)
next
  case (Cons p f)
  have "length (dropWhile is_digit f) \<le> length f" by (rule length_dropWhile_le)
  with Cons show ?thesis by (simp add: frac_part_def)
qed

lemma exp_part_shorter: "length (snd (exp_part cs)) \<le> length cs"
proof (cases cs)
  case Nil
  then show ?thesis by (simp add: exp_part_def)
next
  case (Cons e x)
  have "length (dropWhile is_digit x) \<le> length x"
    and "length (dropWhile is_digit (drop 1 x)) \<le> length (drop 1 x)"
    by (rule length_dropWhile_le)+
  then have "length (dropWhile is_digit x) \<le> Suc (length x)"
    and "length (dropWhile is_digit (drop 1 x)) \<le> Suc (length x)"
    by simp_all
  with Cons show ?thesis by (simp add: exp_part_def Let_def)
qed

lemma match_number_shorter:
  assumes "match_number cs = Some (v, rest)"
  shows "length rest < length cs"
proof -
  from assms obtain neg ds cs1 where i: "integer_part cs = Some (neg, ds, cs1)"
    by (auto simp: match_number_def split: option.splits)
  obtain frac cs2 where f: "frac_part cs1 = (frac, cs2)" by (cases "frac_part cs1")
  obtain exp cs3 where e: "exp_part cs2 = (exp, cs3)" by (cases "exp_part cs2")
  from assms i f e have "rest = cs3"
    by (auto simp: match_number_def split: if_splits)
  moreover from frac_part_shorter [of cs1] f have "length cs2 \<le> length cs1" by simp
  moreover from exp_part_shorter [of cs2] e have "length cs3 \<le> length cs2" by simp
  ultimately show ?thesis using integer_part_shorter [OF i] by simp
qed

text \<open>
  The branches of \<^verbatim>\<open>_scan_once\<close> that read a value with no value inside it, in the
  scanner's order: a string, \<^verbatim>\<open>null\<close>, \<^verbatim>\<open>true\<close>, \<^verbatim>\<open>false\<close>, a number, and the
  three constants.
\<close>

definition scan_scalar :: "string \<Rightarrow> (scalar \<times> string) option" where
  "scan_scalar cs =
     (if take 1 cs = [CHR 0x22] then
        (case scanstring (drop 1 cs) of
           None \<Rightarrow> None
         | Some (s, rest) \<Rightarrow> Some (Value (PyStr s), rest))
      else if take 4 cs = ''null'' then Some (Value PyNone, drop 4 cs)
      else if take 4 cs = ''true'' then Some (Value (PyBool True), drop 4 cs)
      else if take 5 cs = ''false'' then Some (Value (PyBool False), drop 5 cs)
      else
        (case match_number cs of
           Some r \<Rightarrow> Some r
         | None \<Rightarrow>
             if take 3 cs = ''NaN'' then Some (Constant NaN, drop 3 cs)
             else if take 8 cs = ''Infinity'' then Some (Constant (Infinity False), drop 8 cs)
             else if take 9 cs = ''-Infinity'' then Some (Constant (Infinity True), drop 9 cs)
             else None))"

lemma take_drop_shorter: "take n cs = lit \<Longrightarrow> lit \<noteq> [] \<Longrightarrow> length (drop n cs) < length cs"
  by (cases n; cases cs) auto

lemma scan_scalar_shorter:
  assumes "scan_scalar cs = Some (v, rest)"
  shows "length rest < length cs"
proof (cases "take 1 cs = [CHR 0x22]")
  case True
  with assms obtain s where s: "scanstring (drop 1 cs) = Some (s, rest)"
    by (auto simp: scan_scalar_def split: option.splits)
  from scanstring_shorter [OF s] show ?thesis by simp
next
  case False
  show ?thesis
  proof (cases "match_number cs")
    case (Some r)
    with assms False match_number_shorter [of cs v rest] show ?thesis
      by (auto simp: scan_scalar_def intro: take_drop_shorter split: if_splits)
  next
    case None
    with assms False show ?thesis
      by (auto simp: scan_scalar_def intro: take_drop_shorter split: if_splits)
  qed
qed

text \<open>
  Tokens: the six structural characters, what \<open>scan_scalar\<close> reads, and \<open>Invalid\<close>
  where no token can be read, which ends the list.
\<close>

datatype token =
  LBrace | RBrace | LBracket | RBracket | Comma | Colon | Scalar scalar | Invalid

definition structural :: "char \<Rightarrow> token option" where
  "structural c =
     (if c = CHR ''{'' then Some LBrace
      else if c = CHR ''}'' then Some RBrace
      else if c = CHR ''['' then Some LBracket
      else if c = CHR '']'' then Some RBracket
      else if c = CHR '','' then Some Comma
      else if c = CHR '':'' then Some Colon
      else None)"

function tokenize :: "string \<Rightarrow> token list" where
  "tokenize [] = []"
| "tokenize (c # cs) =
     (if WHITESPACE c then tokenize cs
      else
        (case structural c of
           Some t \<Rightarrow> t # tokenize cs
         | None \<Rightarrow>
             (case scan_scalar (c # cs) of
                None \<Rightarrow> [Invalid]
              | Some (v, rest) \<Rightarrow> Scalar v # tokenize rest)))"
  by pat_completeness auto
termination
  by (relation "measure length") (auto dest: scan_scalar_shorter)

text \<open>
  \<^verbatim>\<open>int(digits)\<close>: a \<^verbatim>\<open>ValueError\<close> when the limit is set and the digits are more than
  the limit (a numeral of 640 digits or fewer is never refused).
\<close>

definition parse_int :: "interpreter \<Rightarrow> bool \<Rightarrow> string \<Rightarrow> exn + py" where
  "parse_int i neg digits =
     (if 640 < length digits \<and> 0 < int_max_str_digits i \<and> int_max_str_digits i < length digits
      then Inl ValueError
      else Inr (PyInt (if neg then - int_of_digits digits else int_of_digits digits)))"

text \<open>
  \<^verbatim>\<open>scan_once\<close>, \<^verbatim>\<open>JSONArray\<close> and \<^verbatim>\<open>JSONObject\<close> on the tokens, left to right, so
  that the first failure in the text is the one raised. The containers that are open
  are kept on a stack, innermost first: an array with the values read so far, an object
  with the pairs read so far and the key whose value is being read. \<open>scan_once\<close>
  expects a value, \<open>scan_key\<close> a key and its colon, and \<open>scan_next\<close>, after a
  value, a comma or the closing bracket of the innermost container; after the
  outermost value nothing may follow. An object is built by \<^verbatim>\<open>dict(pairs)\<close>.
  Opening a container is a recursive call of the scanner, and looking a constant up is
  a call too: each raises a \<^verbatim>\<open>RecursionError\<close> when the open containers have used
  up the calls that the interpreter allows.
\<close>

datatype frame = Array "py list" | Object "(string \<times> py) list" string

fun scan_once :: "interpreter \<Rightarrow> frame list \<Rightarrow> token list \<Rightarrow> exn + py"
  and scan_key :: "interpreter \<Rightarrow> (string \<times> py) list \<Rightarrow> frame list \<Rightarrow> token list \<Rightarrow> exn + py"
  and scan_next :: "interpreter \<Rightarrow> py \<Rightarrow> frame list \<Rightarrow> token list \<Rightarrow> exn + py"
where
  "scan_once i st (Scalar (Value v) # ts) = scan_next i v st ts"
| "scan_once i st (Scalar (Integer neg digits) # ts) =
     (case parse_int i neg digits of
        Inl e \<Rightarrow> Inl e
      | Inr v \<Rightarrow> scan_next i v st ts)"
| "scan_once i st (Scalar (Constant x) # ts) =
     (if recursion_limit i \<le> length st then Inl RecursionError
      else scan_next i (PyFloat x) st ts)"
| "scan_once i st (LBracket # RBracket # ts) =
     (if recursion_limit i \<le> length st then Inl RecursionError
      else scan_next i (PyList []) st ts)"
| "scan_once i st (LBracket # ts) =
     (if recursion_limit i \<le> length st then Inl RecursionError
      else scan_once i (Array [] # st) ts)"
| "scan_once i st (LBrace # RBrace # ts) =
     (if recursion_limit i \<le> length st then Inl RecursionError
      else scan_next i (PyDict []) st ts)"
| "scan_once i st (LBrace # ts) =
     (if recursion_limit i \<le> length st then Inl RecursionError
      else scan_key i [] st ts)"
| "scan_once i st ts = Inl JSONDecodeError"
| "scan_key i pairs st (Scalar (Value (PyStr k)) # Colon # ts) =
     scan_once i (Object pairs k # st) ts"
| "scan_key i pairs st ts = Inl JSONDecodeError"
| "scan_next i v [] ts = (if ts = [] then Inr v else Inl JSONDecodeError)"
| "scan_next i v (Array values # st) (Comma # ts) = scan_once i (Array (values @ [v]) # st) ts"
| "scan_next i v (Array values # st) (RBracket # ts) =
     scan_next i (PyList (values @ [v])) st ts"
| "scan_next i v (Object pairs k # st) (Comma # ts) = scan_key i (pairs @ [(k, v)]) st ts"
| "scan_next i v (Object pairs k # st) (RBrace # ts) =
     scan_next i (PyDict (py_dict (pairs @ [(k, v)]))) st ts"
| "scan_next i v st ts = Inl JSONDecodeError"

definition json_loads :: "interpreter \<Rightarrow> string \<Rightarrow> exn + py" where
  "json_loads i s = scan_once i [] (tokenize s)"

section \<open>The application\<close>

subsection \<open>Configuration, collaborators, session\<close>

text \<open>
  What \<^verbatim>\<open>get_api_key\<close> reads: the secrets of the deployment (\<open>None\<close> when there is no
  secrets file), the environment of the process, and the \<^verbatim>\<open>.env\<close> file (\<open>None\<close> when
  there is none).
\<close>

record config =
  secrets :: "(string \<rightharpoonup> py) option"
  environ :: "string \<rightharpoonup> string"
  dotenv :: "(string \<rightharpoonup> string) option"

text \<open>
  The four functions imported from \<^verbatim>\<open>helper\<close>, whose code is not part of the
  sources at hand: each is a parameter that returns or raises.
\<close>

record helpers =
  configure_genai :: "py \<Rightarrow> exn + unit"
  extract_pdf_text :: "string \<Rightarrow> exn + string"
  prepare_prompt :: "string \<Rightarrow> string \<Rightarrow> exn + string"
  get_gemini_response :: "string \<Rightarrow> exn + string"

text \<open>
  What the three input widgets return in this run of the script: the text of the job
  description, the uploaded file (its bytes) or \<^verbatim>\<open>None\<close>, and whether the button was
  pressed.
\<close>

record widgets =
  text_area :: string
  file_uploader :: "string option"
  button :: bool

text \<open>
  Everything \<^verbatim>\<open>main\<close> does to the outside, in order: the writes to
  \<^verbatim>\<open>st.session_state.processing\<close>, the calls to the four collaborators with their
  arguments, and the Streamlit calls with their label or content (\<open>St_error_exn p e\<close> is
  \<^verbatim>\<open>st.error(f"p{str(e)}")\<close>, \<open>St_button l d\<close> the button drawn with
  \<^verbatim>\<open>disabled=d\<close>, \<open>Sidebar\<close> a call inside \<^verbatim>\<open>with st.sidebar\<close>).
\<close>

datatype effect =
    Set_processing bool
  | Configure_genai py
  | Extract_pdf_text string
  | Prepare_prompt string string
  | Get_gemini_response string
  | St_error string
  | St_error_exn string exn
  | St_warning string
  | St_success string
  | St_title string
  | St_subheader string
  | St_write py
  | St_metric string py
  | St_spinner string
  | St_text_area string
  | St_file_uploader string
  | St_button string bool
  | Sidebar effect

text \<open>
  The state \<^verbatim>\<open>main\<close> threads: \<^verbatim>\<open>st.session_state.processing\<close> (\<open>None\<close> while the key
  is not in the session) and the effects so far.
\<close>

record state =
  processing :: "bool option"
  effects :: "effect list"

definition emit :: "effect \<Rightarrow> state \<Rightarrow> state" where
  "emit e s = s\<lparr>effects := effects s @ [e]\<rparr>"

definition set_processing :: "bool \<Rightarrow> state \<Rightarrow> state" where
  "set_processing b s = emit (Set_processing b) (s\<lparr>processing := Some b\<rparr>)"

definition init_session_state :: "state \<Rightarrow> state" where
  "init_session_state s = (if processing s = None then set_processing False s else s)"

subsection \<open>\<^verbatim>\<open>get_api_key\<close>\<close>

definition st_secrets :: "config \<Rightarrow> string \<Rightarrow> exn + py" where
  "st_secrets c k =
     (case secrets c of
        None \<Rightarrow> Inl FileNotFoundError
      | Some m \<Rightarrow> (case m k of None \<Rightarrow> Inl (KeyError k) | Some v \<Rightarrow> Inr v))"

text \<open>
  \<^verbatim>\<open>load_dotenv()\<close> adds the variables of the \<^verbatim>\<open>.env\<close> file to the environment and
  leaves a variable that is already set as it is.
\<close>

definition load_dotenv :: "config \<Rightarrow> string \<rightharpoonup> string" where
  "load_dotenv c = (case dotenv c of None \<Rightarrow> environ c | Some f \<Rightarrow> f ++ environ c)"

definition os_getenv :: "(string \<rightharpoonup> string) \<Rightarrow> string \<Rightarrow> py" where
  "os_getenv env k = (case env k of None \<Rightarrow> PyNone | Some v \<Rightarrow> PyStr v)"

text \<open>The bare \<^verbatim>\<open>except:\<close> catches whatever \<^verbatim>\<open>st.secrets[...]\<close> raises.\<close>

definition get_api_key :: "config \<Rightarrow> py" where
  "get_api_key c =
     (case st_secrets c ''GOOGLE_API_KEY'' of
        Inr v \<Rightarrow> v
      | Inl e \<Rightarrow> os_getenv (load_dotenv c) ''GOOGLE_API_KEY'')"

subsection \<open>The page\<close>

text \<open>The texts of the page; the emoji are their UTF-8 bytes.\<close>

definition about :: string where
  "about =
     [CHR 0x0A] @ ''        ATS Hub helps you:'' @
     [CHR 0x0A] @ ''        - Assess the alignment between the resume and job description.'' @
     [CHR 0x0A] @ ''        - Detect missing keywords.'' @
     [CHR 0x0A] @ ''        - Receive tailored suggestions for improvement.'' @
     [CHR 0x0A] @ ''        ''"

definition page :: "state \<Rightarrow> state" where
  "page s =
     (let s = emit (Sidebar (St_title ([CHR 0xF0, CHR 0x9F, CHR 0x8F, CHR 0xA1] @ '' ATS Hub''))) s;
          s = emit (Sidebar (St_subheader ''About'')) s;
          s = emit (Sidebar (St_write (PyStr about))) s;
          s = emit (St_title ([CHR 0xF0, CHR 0x9F, CHR 0x93, CHR 0x84] @ '' ATS Hub Resume Analyzer'')) s;
          s = emit (St_subheader ''Optimize Your Resume for ATS'') s;
          s = emit (St_text_area ''Job Description'') s;
          s = emit (St_file_uploader ''Resume (PDF)'') s
      in s)"

subsection \<open>Displaying the results\<close>

text \<open>
  The Streamlit calls that are given a text computed in the run. Each puts the text into
  a message for the browser, which raises a \<^verbatim>\<open>UnicodeEncodeError\<close> when the text
  cannot be encoded. \<^verbatim>\<open>st.metric(label, value)\<close> takes an \<^verbatim>\<open>int\<close> (a \<^verbatim>\<open>bool\<close> is one),
  a \<^verbatim>\<open>float\<close>, a \<^verbatim>\<open>str\<close> or \<^verbatim>\<open>None\<close>, and raises a \<^verbatim>\<open>TypeError\<close> on a list or a
  dict. \<^verbatim>\<open>st.write\<close> shows a list or a dict as JSON text, all ASCII.
\<close>

fun st_metric :: "string \<Rightarrow> py \<Rightarrow> exn + effect" where
  "st_metric label (PyList xs) = Inl (TypeError_metric (PyList xs))"
| "st_metric label (PyDict d) = Inl (TypeError_metric (PyDict d))"
| "st_metric label (PyStr s) =
     (if encodable s then Inr (St_metric label (PyStr s)) else Inl UnicodeEncodeError)"
| "st_metric label v = Inr (St_metric label v)"

fun st_write :: "py \<Rightarrow> exn + effect" where
  "st_write (PyStr s) = (if encodable s then Inr (St_write (PyStr s)) else Inl UnicodeEncodeError)"
| "st_write v = Inr (St_write v)"

definition st_error :: "string \<Rightarrow> exn \<Rightarrow> exn + effect" where
  "st_error prefix e =
     (if str_encodable e then Inr (St_error_exn prefix e) else Inl UnicodeEncodeError)"

text \<open>The three lookups of lines 101, 106 and 114, and the text of lines 107 to 110.\<close>

definition match_percentage :: "py \<Rightarrow> exn + py" where
  "match_percentage response_json = py_get response_json ''JD Match'' (PyStr ''N/A'')"

definition missing_keywords :: "py \<Rightarrow> exn + py" where
  "missing_keywords response_json = py_get response_json ''MissingKeywords'' (PyList [])"

definition profile_summary :: "py \<Rightarrow> exn + py" where
  "profile_summary response_json =
     py_get response_json ''Profile Summary'' (PyStr ''No summary available'')"

definition keywords_text :: "py \<Rightarrow> exn + string" where
  "keywords_text keywords =
     (if truthy keywords then str_join '', '' keywords
      else Inr ''No critical missing keywords found!'')"

text \<open>How a block of statements ends: at its end, by \<^verbatim>\<open>return\<close>, or by an exception.\<close>

datatype outcome = Completed | Returned | Raised exn

text \<open>Lines 98 to 114.\<close>

definition display_results :: "py \<Rightarrow> state \<Rightarrow> state \<times> outcome" where
  "display_results response_json s0 =
     (let s1 = emit (St_success ([CHR 0xE2, CHR 0x9C, CHR 0xA8] @ '' Analysis Complete!'')) s0 in
      case match_percentage response_json of
        Inl e \<Rightarrow> (s1, Raised e)
      | Inr percentage \<Rightarrow>
      (case st_metric ''Match Score'' percentage of
        Inl e \<Rightarrow> (s1, Raised e)
      | Inr metric \<Rightarrow>
      (let s2 = emit (St_subheader ''Missing Keywords'') (emit metric s1) in
       case missing_keywords response_json of
        Inl e \<Rightarrow> (s2, Raised e)
      | Inr keywords \<Rightarrow>
      (case keywords_text keywords of
        Inl e \<Rightarrow> (s2, Raised e)
      | Inr text \<Rightarrow>
      (case st_write (PyStr text) of
        Inl e \<Rightarrow> (s2, Raised e)
      | Inr written \<Rightarrow>
      (let s3 = emit (St_subheader ''Profile Summary'') (emit written s2) in
       case profile_summary response_json of
        Inl e \<Rightarrow> (s3, Raised e)
      | Inr summary \<Rightarrow>
      (case st_write summary of
        Inl e \<Rightarrow> (s3, Raised e)
      | Inr shown \<Rightarrow> (emit shown s3, Completed))))))))"

subsection \<open>\<^verbatim>\<open>main\<close>\<close>

text \<open>
  The body of the \<^verbatim>\<open>try\<close>, lines 80 to 114. The inner handler catches the
  \<^verbatim>\<open>JSONDecodeError\<close> of \<^verbatim>\<open>json.loads\<close> only.
\<close>

definition analyze ::
  "interpreter \<Rightarrow> helpers \<Rightarrow> string \<Rightarrow> string \<Rightarrow> state \<Rightarrow> state \<times> outcome" where
  "analyze i h jd uploaded_file s0 =
     (let s1 = emit (St_spinner ([CHR 0xF0, CHR 0x9F, CHR 0x93, CHR 0x8A] @ '' Analyzing your resume...'')) s0;
          s2 = emit (Extract_pdf_text uploaded_file) s1 in
      case extract_pdf_text h uploaded_file of
        Inl e \<Rightarrow> (s2, Raised e)
      | Inr resume_text \<Rightarrow>
      (let s3 = emit (Prepare_prompt resume_text jd) s2 in
       case prepare_prompt h resume_text jd of
        Inl e \<Rightarrow> (s3, Raised e)
      | Inr input_prompt \<Rightarrow>
      (let s4 = emit (Get_gemini_response input_prompt) s3 in
       case get_gemini_response h input_prompt of
        Inl e \<Rightarrow> (s4, Raised e)
      | Inr response \<Rightarrow>
      (case json_loads i response of
        Inl e \<Rightarrow>
          if e = JSONDecodeError
          then (emit (St_error ''Error parsing response. Please try again.'') s4, Returned)
          else (s4, Raised e)
      | Inr response_json \<Rightarrow> display_results response_json s4))))"

text \<open>
  Lines 116 to 120, after the body ended in \<open>ended\<close>: \<^verbatim>\<open>except Exception\<close> turns an
  exception of that class into a message, unless showing the message raises in its turn;
  \<^verbatim>\<open>finally\<close> clears the guard whatever happened; and an exception that was not caught,
  or that the handler raised, goes on to the caller.
\<close>

fun handle :: "state \<times> outcome \<Rightarrow> state \<times> exn option" where
  "handle (s, Raised e) =
     (if is_Exception e then
        (case st_error ''An error occurred: '' e of
           Inl e' \<Rightarrow> (set_processing False s, Some e')
         | Inr shown \<Rightarrow> (set_processing False (emit shown s), None))
      else (set_processing False s, Some e))"
| "handle (s, ended) = (set_processing False s, None)"

text \<open>Lines 77 to 120.\<close>

definition pipeline ::
  "interpreter \<Rightarrow> helpers \<Rightarrow> string \<Rightarrow> string \<Rightarrow> state \<Rightarrow> state \<times> exn option" where
  "pipeline i h jd uploaded_file s0 =
     handle (analyze i h jd uploaded_file (set_processing True s0))"

text \<open>
  \<^verbatim>\<open>main\<close>: the final state, and the exception that leaves \<^verbatim>\<open>main\<close> if one does.
  The button is drawn with \<^verbatim>\<open>disabled=st.session_state.processing\<close>, a key that
  \<^verbatim>\<open>init_session_state\<close> has made sure exists.
\<close>

definition main ::
  "interpreter \<Rightarrow> config \<Rightarrow> helpers \<Rightarrow> widgets \<Rightarrow> state \<Rightarrow> state \<times> exn option" where
  "main i c h w s0 =
     (let s1 = init_session_state s0;
          api_key = get_api_key c in
      if \<not> truthy api_key then
        (emit (St_error ''API Key not found. Please check your configuration.'') s1, None)
      else
        (let s2 = emit (Configure_genai api_key) s1 in
         case configure_genai h api_key of
           Inl e \<Rightarrow>
             if is_Exception e then
               (case st_error ''Failed to configure API: '' e of
                  Inl e' \<Rightarrow> (s2, Some e')
                | Inr shown \<Rightarrow> (emit shown s2, None))
             else (s2, Some e)
         | Inr u \<Rightarrow>
             (let s3 = page s2;
                  jd = text_area w;
                  s4 = emit (St_button ''Analyze Resume'' (processing s3 = Some True)) s3 in
              if button w then
                if jd = [] then (emit (St_warning ''Please provide a job description.'') s4, None)
                else
                  (case file_uploader w of
                     None \<Rightarrow>
                       (emit (St_warning ''Please upload a resume in PDF format.'') s4, None)
                   | Some uploaded_file \<Rightarrow> pipeline i h jd uploaded_file s4)
              else (s4, None))))"

text \<open>One run of the script, from a session whose guard is \<open>session\<close>.\<close>

definition run ::
  "interpreter \<Rightarrow> config \<Rightarrow> helpers \<Rightarrow> widgets \<Rightarrow> bool option \<Rightarrow> state \<times> exn option" where
  "run i c h w session = main i c h w \<lparr>processing = session, effects = []\<rparr>"

section \<open>Reading a run\<close>

text \<open>
  The three output signals are the metric and the two \<^verbatim>\<open>st.write\<close> calls of the main
  area (the one of the sidebar is the fixed text of the page). The messages are the
  errors and warnings. The stages of the pipeline are the calls to the PDF extractor, the
  prompt builder and the model client.
\<close>

fun is_signal :: "effect \<Rightarrow> bool" where
  "is_signal (St_metric label v) = True"
| "is_signal (St_write v) = True"
| "is_signal e = False"

fun is_message :: "effect \<Rightarrow> bool" where
  "is_message (St_error m) = True"
| "is_message (St_error_exn m e) = True"
| "is_message (St_warning m) = True"
| "is_message e = False"

fun is_stage :: "effect \<Rightarrow> bool" where
  "is_stage (Extract_pdf_text b) = True"
| "is_stage (Prepare_prompt r j) = True"
| "is_stage (Get_gemini_response p) = True"
| "is_stage e = False"

fun is_display :: "effect \<Rightarrow> bool" where
  "is_display (Set_processing b) = False"
| "is_display (Configure_genai k) = False"
| "is_display (Extract_pdf_text b) = False"
| "is_display (Prepare_prompt r j) = False"
| "is_display (Get_gemini_response p) = False"
| "is_display e = True"

text \<open>The six messages \<^verbatim>\<open>main\<close> has, the two with an exception for one that was caught.\<close>

fun known_message :: "effect \<Rightarrow> bool" where
  "known_message (St_error m) =
     (m = ''API Key not found. Please check your configuration.''
      \<or> m = ''Error parsing response. Please try again.'')"
| "known_message (St_error_exn p e) =
     ((p = ''Failed to configure API: '' \<or> p = ''An error occurred: '') \<and> is_Exception e)"
| "known_message (St_warning m) =
     (m = ''Please provide a job description.'' \<or> m = ''Please upload a resume in PDF format.'')"
| "known_message e = False"

definition signals :: "state \<times> exn option \<Rightarrow> effect list" where
  "signals r = filter is_signal (effects (fst r))"

definition messages :: "state \<times> exn option \<Rightarrow> effect list" where
  "messages r = filter is_message (effects (fst r))"

definition stages :: "state \<times> exn option \<Rightarrow> effect list" where
  "stages r = filter is_stage (effects (fst r))"

definition displays :: "state \<times> exn option \<Rightarrow> effect list" where
  "displays r = filter is_display (effects (fst r))"

text \<open>
  What becomes of an exception \<open>e\<close> that reaches
  \<^verbatim>\<open>except Exception as e: st.error(f"{prefix}{str(e)}")\<close>: the messages shown and the
  exception that goes on. An exception of another class is not caught; one whose text
  cannot be encoded makes \<^verbatim>\<open>st.error\<close> raise instead of showing it.
\<close>

definition reported :: "string \<Rightarrow> exn \<Rightarrow> effect list \<times> exn option" where
  "reported prefix e =
     (if \<not> is_Exception e then ([], Some e)
      else if str_encodable e then ([St_error_exn prefix e], None)
      else ([], Some UnicodeEncodeError))"

text \<open>The state in which the pipeline starts: the page is drawn, the button was pressed.\<close>

definition before_pipeline :: "config \<Rightarrow> bool option \<Rightarrow> state" where
  "before_pipeline c session =
     emit (St_button ''Analyze Resume'' (session = Some True))
       (page (emit (Configure_genai (get_api_key c))
         (init_session_state \<lparr>processing = session, effects = []\<rparr>)))"

text \<open>
  An interpreter with the default limits of CPython, \<^verbatim>\<open>json.loads\<close> being called with the
  whole recursion limit still free.
\<close>

definition cpython :: interpreter where
  "cpython = \<lparr>recursion_limit = 1000, int_max_str_digits = 4300\<rparr>"

text \<open>
  Valid JSON, as RFC 8259 has it: a text that the decoder accepts when no limit of the
  interpreter can be met, and that has none of the three constants.
\<close>

fun is_constant :: "token \<Rightarrow> bool" where
  "is_constant (Scalar (Constant x)) = True"
| "is_constant t = False"

definition valid_json :: "string \<Rightarrow> bool" where
  "valid_json s =
     (filter is_constant (tokenize s) = []
      \<and> (case json_loads \<lparr>recursion_limit = length s, int_max_str_digits = 0\<rparr> s of
            Inl e \<Rightarrow> False
          | Inr v \<Rightarrow> True))"

text \<open>
  A configuration with the credential in the secrets, collaborators that succeed, the
  model answering \<open>response\<close>, and a submission with both inputs.
\<close>

definition a_config :: config where
  "a_config =
     \<lparr>secrets = Some [''GOOGLE_API_KEY'' \<mapsto> PyStr ''key''], environ = Map.empty, dotenv = None\<rparr>"

definition answering :: "string \<Rightarrow> helpers" where
  "answering response =
     \<lparr>configure_genai = (\<lambda>k. Inr ()),
      extract_pdf_text = (\<lambda>b. Inr ''resume''),
      prepare_prompt = (\<lambda>r j. Inr (r @ '' / '' @ j)),
      get_gemini_response = (\<lambda>p. Inr response)\<rparr>"

definition a_submission :: widgets where
  "a_submission = \<lparr>text_area = ''job'', file_uploader = Some ''%PDF'', button = True\<rparr>"

text \<open>The same collaborators, but the model client raises \<open>e\<close>.\<close>

definition failing :: "exn \<Rightarrow> helpers" where
  "failing e = (answering [])\<lparr>get_gemini_response := (\<lambda>p. Inl e)\<rparr>"

text \<open>
  Configurations for the credential: none anywhere; an empty secret beside a variable
  that is set; an empty variable beside a \<^verbatim>\<open>.env\<close> file that sets it; the \<^verbatim>\<open>.env\<close>
  file alone.
\<close>

definition no_credential :: config where
  "no_credential = \<lparr>secrets = None, environ = Map.empty, dotenv = None\<rparr>"

definition empty_secret :: config where
  "empty_secret =
     \<lparr>secrets = Some [''GOOGLE_API_KEY'' \<mapsto> PyStr []],
      environ = [''GOOGLE_API_KEY'' \<mapsto> ''key''], dotenv = None\<rparr>"

definition empty_variable :: config where
  "empty_variable =
     \<lparr>secrets = Some Map.empty, environ = [''GOOGLE_API_KEY'' \<mapsto> []],
      dotenv = Some [''GOOGLE_API_KEY'' \<mapsto> ''key'']\<rparr>"

definition dotenv_only :: config where
  "dotenv_only =
     \<lparr>secrets = None, environ = Map.empty, dotenv = Some [''GOOGLE_API_KEY'' \<mapsto> ''key'']\<rparr>"

text \<open>
  The taxonomy of errors of the specification (its section 7), as conditions on what
  a submission meets, in the order of the pipeline: no credential or a configuration that
  is rejected; a missing input; the PDF extractor failing; the model client failing; a
  response that does not parse. The prompt builder has no kind of its own.
\<close>

datatype error_kind =
  ConfigurationError | ValidationError | ExtractionError | TransportError | ResponseFormatError

definition spec_error_kind ::
  "interpreter \<Rightarrow> config \<Rightarrow> helpers \<Rightarrow> widgets \<Rightarrow> error_kind option" where
  "spec_error_kind i c h w =
     (if \<not> truthy (get_api_key c) then Some ConfigurationError
      else
        (case configure_genai h (get_api_key c) of
           Inl e \<Rightarrow> Some ConfigurationError
         | Inr u \<Rightarrow>
        (case file_uploader w of
           None \<Rightarrow> Some ValidationError
         | Some f \<Rightarrow>
        if text_area w = [] then Some ValidationError
        else
        (case extract_pdf_text h f of
           Inl e \<Rightarrow> Some ExtractionError
         | Inr t \<Rightarrow>
        (case prepare_prompt h t (text_area w) of
           Inl e \<Rightarrow> None
         | Inr p \<Rightarrow>
        (case get_gemini_response h p of
           Inl e \<Rightarrow> Some TransportError
         | Inr r \<Rightarrow>
        (case json_loads i r of
           Inl e \<Rightarrow> Some ResponseFormatError
         | Inr v \<Rightarrow> None)))))))"

text \<open>
  A well-formed result: the run returns, all three output signals are emitted and no
  error or warning is shown.
\<close>

definition well_formed_result :: "state \<times> exn option \<Rightarrow> bool" where
  "well_formed_result r = (snd r = None \<and> length (signals r) = 3 \<and> messages r = [])"

text \<open>The two answers of the specification's examples.\<close>

definition only_summary :: string where
  \<open>only_summary = ''{"Profile Summary": "ok"}''\<close>

definition full_response :: string where
  \<open>full_response =
     ''{"JD Match": "82%", "MissingKeywords": ["Docker","Kubernetes"], "Profile Summary": "Strong backend profile"}''\<close>


text \<open>An answer that is valid JSON, with a keyword that is not a string.\<close>

definition wrong_shape :: string where
  \<open>wrong_shape = ''{"JD Match": "82%", "MissingKeywords": [404], "Profile Summary": "ok"}''\<close>

text \<open>
  Answers that are not valid JSON: brackets that open and never close, more of them
  than the interpreter allows; and an object with a constant that JSON does not have.
\<close>

definition deep_nesting :: string where
  "deep_nesting = replicate 1001 (CHR ''['')"

definition nan_score :: string where
  \<open>nan_score = ''{"JD Match": NaN}''\<close>

text \<open>An answer whose keyword is the escape \<^verbatim>\<open>\ud800\<close>, a surrogate on its own.\<close>

definition lone_surrogate :: string where
  \<open>lone_surrogate = ''{"MissingKeywords": ["'' @ [CHR 0x5C] @ ''ud800"]}''\<close>

section \<open>How a run unfolds\<close>

subsection \<open>The decoder\<close>

text \<open>
  The three exceptions \<^verbatim>\<open>json.loads\<close> can raise, and what it does on brackets that
  only open: a \<^verbatim>\<open>RecursionError\<close> when there are more of them than calls left, and
  a \<^verbatim>\<open>JSONDecodeError\<close> at the end of the text otherwise.
\<close>

lemma scan_errors:
  "scan_once i st ts = Inl e \<Longrightarrow> e = JSONDecodeError \<or> e = RecursionError \<or> e = ValueError"
  "scan_key i ps st ts = Inl e \<Longrightarrow> e = JSONDecodeError \<or> e = RecursionError \<or> e = ValueError"
  "scan_next i v st ts = Inl e \<Longrightarrow> e = JSONDecodeError \<or> e = RecursionError \<or> e = ValueError"
  by (induction i st ts and i ps st ts and i v st ts rule: scan_once_scan_key_scan_next.induct)
     (auto simp: parse_int_def split: if_splits sum.splits)

lemma json_loads_error:
  "json_loads i r = Inl e \<Longrightarrow> e = JSONDecodeError \<or> e = RecursionError \<or> e = ValueError"
  unfolding json_loads_def by (rule scan_errors(1))

lemma tokenize_brackets: "tokenize (replicate n (CHR ''['')) = replicate n LBracket"
  by (induction n) (simp_all add: WHITESPACE_def structural_def)

lemma scan_once_brackets:
  "length st \<le> recursion_limit i \<Longrightarrow>
   scan_once i st (replicate n LBracket) =
     (if recursion_limit i < length st + n then Inl RecursionError else Inl JSONDecodeError)"
proof (induction n arbitrary: st)
  case 0
  then show ?case by simp
next
  case (Suc n)
  show ?case
  proof (cases n)
    case 0
    with Suc.prems show ?thesis by auto
  next
    case (Suc m)
    have r: "replicate (Suc (Suc m)) LBracket = LBracket # LBracket # replicate m LBracket"
      by simp
    show ?thesis
    proof (cases "recursion_limit i \<le> length st")
      case True
      then show ?thesis unfolding \<open>n = Suc m\<close> r by simp
    next
      case False
      then have "length (Array [] # st) \<le> recursion_limit i" by simp
      from Suc.IH [OF this] False show ?thesis
        unfolding \<open>n = Suc m\<close> r by simp
    qed
  qed
qed

lemma json_loads_brackets:
  "json_loads i (replicate n (CHR ''['')) =
     (if recursion_limit i < n then Inl RecursionError else Inl JSONDecodeError)"
  using scan_once_brackets [of "[]" i n] by (simp add: json_loads_def tokenize_brackets)


subsection \<open>What each part adds to the effects\<close>

text \<open>
  The facts the claims are read from, whatever the collaborators do. An exception that
  a statement of \<^verbatim>\<open>main\<close> or the decoder raises is of class \<^verbatim>\<open>Exception\<close>, with a
  text that can be encoded.
\<close>

lemma effects_emit: "effects (emit e s) = effects s @ [e]"
  and processing_emit: "processing (emit e s) = processing s"
  by (simp_all add: emit_def)

lemma effects_set_processing: "effects (set_processing b s) = effects s @ [Set_processing b]"
  and processing_set_processing: "processing (set_processing b s) = Some b"
  by (simp_all add: set_processing_def emit_def)

lemma processing_page: "processing (page s) = processing s"
  by (simp add: page_def processing_emit)

lemma encodable_fixed:
  "encodable ''No critical missing keywords found!''"
  "encodable ''N/A''"
  "encodable ''No summary available''"
  "encodable ''get''"
  by code_simp+

lemma st_metric_Inr: "st_metric l v = Inr m \<Longrightarrow> m = St_metric l v"
  by (cases v) (auto split: if_splits)

lemma st_write_Inr: "st_write v = Inr m \<Longrightarrow> m = St_write v"
  by (cases v) (auto split: if_splits)

lemma st_metric_Inl: "st_metric l v = Inl e \<Longrightarrow> is_Exception e \<and> str_encodable e"
  by (cases v) (auto split: if_splits)

lemma st_write_Inl: "st_write v = Inl e \<Longrightarrow> e = UnicodeEncodeError"
  by (cases v) (auto split: if_splits)

lemma str_items_Inl: "str_items n xs = Inl e \<Longrightarrow> is_Exception e \<and> str_encodable e"
  by (induction n xs rule: str_items.induct) (auto split: sum.splits)

lemma str_join_Inl: "str_join sep v = Inl e \<Longrightarrow> is_Exception e \<and> str_encodable e"
  by (cases v) (auto split: sum.splits dest: str_items_Inl)

lemma py_get_Inl: "py_get v k d = Inl e \<Longrightarrow> is_Exception e \<and> str_encodable e"
  by (cases v) (auto simp: encodable_fixed)

lemma json_loads_Inl: "json_loads i r = Inl e \<Longrightarrow> is_Exception e \<and> str_encodable e"
  by (drule json_loads_error) auto

lemma display_results_paths:
  "match_percentage rj = Inl e \<Longrightarrow>
     display_results rj s =
       (emit (St_success ([CHR 0xE2, CHR 0x9C, CHR 0xA8] @ '' Analysis Complete!'')) s, Raised e)"
  "match_percentage rj = Inr mp \<Longrightarrow> st_metric ''Match Score'' mp = Inl e \<Longrightarrow>
     display_results rj s =
       (emit (St_success ([CHR 0xE2, CHR 0x9C, CHR 0xA8] @ '' Analysis Complete!'')) s, Raised e)"
  "match_percentage rj = Inr mp \<Longrightarrow> st_metric ''Match Score'' mp = Inr m \<Longrightarrow>
   missing_keywords rj = Inl e \<Longrightarrow>
     display_results rj s =
       (emit (St_subheader ''Missing Keywords'') (emit m
         (emit (St_success ([CHR 0xE2, CHR 0x9C, CHR 0xA8] @ '' Analysis Complete!'')) s)), Raised e)"
  "match_percentage rj = Inr mp \<Longrightarrow> st_metric ''Match Score'' mp = Inr m \<Longrightarrow>
   missing_keywords rj = Inr kw \<Longrightarrow> keywords_text kw = Inl e \<Longrightarrow>
     display_results rj s =
       (emit (St_subheader ''Missing Keywords'') (emit m
         (emit (St_success ([CHR 0xE2, CHR 0x9C, CHR 0xA8] @ '' Analysis Complete!'')) s)), Raised e)"
  "match_percentage rj = Inr mp \<Longrightarrow> st_metric ''Match Score'' mp = Inr m \<Longrightarrow>
   missing_keywords rj = Inr kw \<Longrightarrow> keywords_text kw = Inr t \<Longrightarrow> st_write (PyStr t) = Inl e \<Longrightarrow>
     display_results rj s =
       (emit (St_subheader ''Missing Keywords'') (emit m
         (emit (St_success ([CHR 0xE2, CHR 0x9C, CHR 0xA8] @ '' Analysis Complete!'')) s)), Raised e)"
  "match_percentage rj = Inr mp \<Longrightarrow> st_metric ''Match Score'' mp = Inr m \<Longrightarrow>
   missing_keywords rj = Inr kw \<Longrightarrow> keywords_text kw = Inr t \<Longrightarrow> st_write (PyStr t) = Inr wr \<Longrightarrow>
   profile_summary rj = Inl e \<Longrightarrow>
     display_results rj s =
       (emit (St_subheader ''Profile Summary'') (emit wr
         (emit (St_subheader ''Missing Keywords'') (emit m
           (emit (St_success ([CHR 0xE2, CHR 0x9C, CHR 0xA8] @ '' Analysis Complete!'')) s)))),
        Raised e)"
  "match_percentage rj = Inr mp \<Longrightarrow> st_metric ''Match Score'' mp = Inr m \<Longrightarrow>
   missing_keywords rj = Inr kw \<Longrightarrow> keywords_text kw = Inr t \<Longrightarrow> st_write (PyStr t) = Inr wr \<Longrightarrow>
   profile_summary rj = Inr ps \<Longrightarrow> st_write ps = Inl e \<Longrightarrow>
     display_results rj s =
       (emit (St_subheader ''Profile Summary'') (emit wr
         (emit (St_subheader ''Missing Keywords'') (emit m
           (emit (St_success ([CHR 0xE2, CHR 0x9C, CHR 0xA8] @ '' Analysis Complete!'')) s)))),
        Raised e)"
  "match_percentage rj = Inr mp \<Longrightarrow> st_metric ''Match Score'' mp = Inr m \<Longrightarrow>
   missing_keywords rj = Inr kw \<Longrightarrow> keywords_text kw = Inr t \<Longrightarrow> st_write (PyStr t) = Inr wr \<Longrightarrow>
   profile_summary rj = Inr ps \<Longrightarrow> st_write ps = Inr sh \<Longrightarrow>
     display_results rj s =
       (emit sh (emit (St_subheader ''Profile Summary'') (emit wr
         (emit (St_subheader ''Missing Keywords'') (emit m
           (emit (St_success ([CHR 0xE2, CHR 0x9C, CHR 0xA8] @ '' Analysis Complete!'')) s))))),
        Completed)"
  by (simp_all add: display_results_def)

lemma keywords_text_Inl: "keywords_text kw = Inl e \<Longrightarrow> is_Exception e \<and> str_encodable e"
  by (auto simp: keywords_text_def split: if_splits dest: str_join_Inl)

lemma display_results_effects:
  "\<exists>xs. effects (fst (display_results rj s)) = effects s @ xs
     \<and> processing (fst (display_results rj s)) = processing s
     \<and> filter is_message xs = [] \<and> filter is_stage xs = [] \<and> Set_processing True \<notin> set xs
     \<and> (case snd (display_results rj s) of
          Completed \<Rightarrow> length (filter is_signal xs) = 3
        | Returned \<Rightarrow> False
        | Raised e \<Rightarrow> is_Exception e \<and> str_encodable e \<and> length (filter is_signal xs) < 3)"
proof (cases "match_percentage rj")
  case (Inl e)
  from display_results_paths(1) [OF this] py_get_Inl [of rj _ _ e] Inl show ?thesis
    by (simp add: effects_emit processing_emit match_percentage_def)
next
  case mp: (Inr mp)
  show ?thesis
  proof (cases "st_metric ''Match Score'' mp")
    case (Inl e)
    from display_results_paths(2) [OF mp this] st_metric_Inl [OF Inl] show ?thesis
      by (simp add: effects_emit processing_emit)
  next
    case m: (Inr m)
    note m' = st_metric_Inr [OF m]
    show ?thesis
    proof (cases "missing_keywords rj")
      case (Inl e)
      from display_results_paths(3) [OF mp m this] py_get_Inl [of rj _ _ e] Inl m' show ?thesis
        by (simp add: effects_emit processing_emit missing_keywords_def)
    next
      case kw: (Inr kw)
      show ?thesis
      proof (cases "keywords_text kw")
        case (Inl e)
        from display_results_paths(4) [OF mp m kw this] keywords_text_Inl [OF Inl] m' show ?thesis
          by (simp add: effects_emit processing_emit)
      next
        case t: (Inr t)
        show ?thesis
        proof (cases "st_write (PyStr t)")
          case (Inl e)
          from display_results_paths(5) [OF mp m kw t this] st_write_Inl [OF Inl] m' show ?thesis
            by (simp add: effects_emit processing_emit)
        next
          case wr: (Inr wr)
          note wr' = st_write_Inr [OF wr]
          show ?thesis
          proof (cases "profile_summary rj")
            case (Inl e)
            from display_results_paths(6) [OF mp m kw t wr this] py_get_Inl [of rj _ _ e] Inl m' wr'
            show ?thesis
              by (simp add: effects_emit processing_emit profile_summary_def)
          next
            case ps: (Inr ps)
            show ?thesis
            proof (cases "st_write ps")
              case (Inl e)
              from display_results_paths(7) [OF mp m kw t wr ps this] st_write_Inl [OF Inl] m' wr'
              show ?thesis
                by (simp add: effects_emit processing_emit)
            next
              case (Inr sh)
              from display_results_paths(8) [OF mp m kw t wr ps this] st_write_Inr [OF Inr] m' wr'
              show ?thesis
                by (simp add: effects_emit processing_emit)
            qed
          qed
        qed
      qed
    qed
  qed
qed

text \<open>The handler and the \<^verbatim>\<open>finally\<close> clause.\<close>

lemma reported_messages:
  "filter is_message (fst (reported p e)) = fst (reported p e)"
  "filter is_signal (fst (reported p e)) = []"
  "filter is_stage (fst (reported p e)) = []"
  "Set_processing True \<notin> set (fst (reported p e))"
  by (simp_all add: reported_def)

lemma handle_raised:
  "effects (fst (handle (s, Raised e))) =
     effects s @ fst (reported ''An error occurred: '' e) @ [Set_processing False]"
  "snd (handle (s, Raised e)) = snd (reported ''An error occurred: '' e)"
  "processing (fst (handle (s, out))) = Some False"
  by (cases out; simp add: reported_def st_error_def effects_set_processing effects_emit
      processing_set_processing)+

lemma handle_ended:
  "out = Completed \<or> out = Returned \<Longrightarrow>
   effects (fst (handle (s, out))) = effects s @ [Set_processing False] \<and> snd (handle (s, out)) = None"
  by (auto simp: effects_set_processing)


text \<open>The body of the \<^verbatim>\<open>try\<close>, by the first call that fails.\<close>

lemma analyze_paths:
  "extract_pdf_text h f = Inl e \<Longrightarrow>
     snd (analyze i h jd f s) = Raised e
     \<and> effects (fst (analyze i h jd f s)) =
         effects s @ [St_spinner ([CHR 0xF0, CHR 0x9F, CHR 0x93, CHR 0x8A] @ '' Analyzing your resume...''),
                      Extract_pdf_text f]"
  "extract_pdf_text h f = Inr t \<Longrightarrow> prepare_prompt h t jd = Inl e \<Longrightarrow>
     snd (analyze i h jd f s) = Raised e
     \<and> effects (fst (analyze i h jd f s)) =
         effects s @ [St_spinner ([CHR 0xF0, CHR 0x9F, CHR 0x93, CHR 0x8A] @ '' Analyzing your resume...''),
                      Extract_pdf_text f, Prepare_prompt t jd]"
  "extract_pdf_text h f = Inr t \<Longrightarrow> prepare_prompt h t jd = Inr p \<Longrightarrow>
   get_gemini_response h p = Inl e \<Longrightarrow>
     snd (analyze i h jd f s) = Raised e
     \<and> effects (fst (analyze i h jd f s)) =
         effects s @ [St_spinner ([CHR 0xF0, CHR 0x9F, CHR 0x93, CHR 0x8A] @ '' Analyzing your resume...''),
                      Extract_pdf_text f, Prepare_prompt t jd, Get_gemini_response p]"
  "extract_pdf_text h f = Inr t \<Longrightarrow> prepare_prompt h t jd = Inr p \<Longrightarrow>
   get_gemini_response h p = Inr r \<Longrightarrow> json_loads i r = Inl JSONDecodeError \<Longrightarrow>
     snd (analyze i h jd f s) = Returned
     \<and> effects (fst (analyze i h jd f s)) =
         effects s @ [St_spinner ([CHR 0xF0, CHR 0x9F, CHR 0x93, CHR 0x8A] @ '' Analyzing your resume...''),
                      Extract_pdf_text f, Prepare_prompt t jd, Get_gemini_response p,
                      St_error ''Error parsing response. Please try again.'']"
  "extract_pdf_text h f = Inr t \<Longrightarrow> prepare_prompt h t jd = Inr p \<Longrightarrow>
   get_gemini_response h p = Inr r \<Longrightarrow> json_loads i r = Inl e \<Longrightarrow> e \<noteq> JSONDecodeError \<Longrightarrow>
     snd (analyze i h jd f s) = Raised e
     \<and> effects (fst (analyze i h jd f s)) =
         effects s @ [St_spinner ([CHR 0xF0, CHR 0x9F, CHR 0x93, CHR 0x8A] @ '' Analyzing your resume...''),
                      Extract_pdf_text f, Prepare_prompt t jd, Get_gemini_response p]"
  "extract_pdf_text h f = Inr t \<Longrightarrow> prepare_prompt h t jd = Inr p \<Longrightarrow>
   get_gemini_response h p = Inr r \<Longrightarrow> json_loads i r = Inr rj \<Longrightarrow>
     analyze i h jd f s =
       display_results rj
         (s\<lparr>effects := effects s @
            [St_spinner ([CHR 0xF0, CHR 0x9F, CHR 0x93, CHR 0x8A] @ '' Analyzing your resume...''),
             Extract_pdf_text f, Prepare_prompt t jd, Get_gemini_response p]\<rparr>)"
  by (simp_all add: analyze_def emit_def)

lemma analyze_effects:
  "\<exists>xs. effects (fst (analyze i h jd f s)) = effects s @ xs
     \<and> processing (fst (analyze i h jd f s)) = processing s
     \<and> Set_processing True \<notin> set xs
     \<and> (case snd (analyze i h jd f s) of
          Completed \<Rightarrow> length (filter is_signal xs) = 3 \<and> filter is_message xs = []
        | Returned \<Rightarrow>
            (\<exists>ys. xs = ys @ [St_error ''Error parsing response. Please try again.'']
               \<and> filter is_signal ys = [] \<and> filter is_message ys = [])
        | Raised e \<Rightarrow> filter is_message xs = [] \<and> length (filter is_signal xs) < 3)"
proof (cases "extract_pdf_text h f")
  case (Inl e)
  then show ?thesis by (simp add: analyze_def effects_emit processing_emit)
next
  case t: (Inr t)
  show ?thesis
  proof (cases "prepare_prompt h t jd")
    case (Inl e)
    with t show ?thesis by (simp add: analyze_def effects_emit processing_emit)
  next
    case p: (Inr p)
    show ?thesis
    proof (cases "get_gemini_response h p")
      case (Inl e)
      with t p show ?thesis by (simp add: analyze_def effects_emit processing_emit)
    next
      case r: (Inr r)
      show ?thesis
      proof (cases "json_loads i r")
        case (Inl e)
        with t p r show ?thesis
          by (cases "e = JSONDecodeError")
            (simp_all add: analyze_def effects_emit processing_emit Let_def)
      next
        case (Inr rj)
        let ?s4 = "s\<lparr>effects := effects s @
            [St_spinner ([CHR 0xF0, CHR 0x9F, CHR 0x93, CHR 0x8A] @ '' Analyzing your resume...''),
             Extract_pdf_text f, Prepare_prompt t jd, Get_gemini_response p]\<rparr>"
        from display_results_effects [of rj ?s4] obtain xs where
          xs: "effects (fst (display_results rj ?s4)) = effects ?s4 @ xs"
            "processing (fst (display_results rj ?s4)) = processing ?s4"
            "filter is_message xs = []" "Set_processing True \<notin> set xs"
            "case snd (display_results rj ?s4) of
               Completed \<Rightarrow> length (filter is_signal xs) = 3
             | Returned \<Rightarrow> False
             | Raised e \<Rightarrow> is_Exception e \<and> str_encodable e \<and> length (filter is_signal xs) < 3"
          by blast
        show ?thesis
          unfolding analyze_paths(6) [OF t p r Inr] using xs
          by (cases "snd (display_results rj ?s4)") simp_all
      qed
    qed
  qed
qed

lemma pipeline_by_outcome:
  "filter is_signal (effects (fst (pipeline i h jd f s))) =
     filter is_signal (effects (fst (analyze i h jd f (set_processing True s))))"
  "filter is_message (effects (fst (pipeline i h jd f s))) =
     filter is_message (effects (fst (analyze i h jd f (set_processing True s)))) @
     (case snd (analyze i h jd f (set_processing True s)) of
        Raised e \<Rightarrow> fst (reported ''An error occurred: '' e) | _ \<Rightarrow> [])"
  "filter is_display (effects (fst (pipeline i h jd f s))) =
     filter is_display (effects (fst (analyze i h jd f (set_processing True s)))) @
     (case snd (analyze i h jd f (set_processing True s)) of
        Raised e \<Rightarrow> fst (reported ''An error occurred: '' e) | _ \<Rightarrow> [])"
  "snd (pipeline i h jd f s) =
     (case snd (analyze i h jd f (set_processing True s)) of
        Raised e \<Rightarrow> snd (reported ''An error occurred: '' e) | _ \<Rightarrow> None)"
  "processing (fst (pipeline i h jd f s)) = Some False"
  "last (effects (fst (pipeline i h jd f s))) = Set_processing False"
proof -
  obtain s1 out where a: "analyze i h jd f (set_processing True s) = (s1, out)"
    by (cases "analyze i h jd f (set_processing True s)")
  show "filter is_signal (effects (fst (pipeline i h jd f s))) =
     filter is_signal (effects (fst (analyze i h jd f (set_processing True s))))"
    unfolding pipeline_def a
    by (cases out) (simp_all del: handle.simps(1) add: handle_raised reported_messages effects_set_processing)
  show "filter is_message (effects (fst (pipeline i h jd f s))) =
     filter is_message (effects (fst (analyze i h jd f (set_processing True s)))) @
     (case snd (analyze i h jd f (set_processing True s)) of
        Raised e \<Rightarrow> fst (reported ''An error occurred: '' e) | _ \<Rightarrow> [])"
    unfolding pipeline_def a
    by (cases out) (simp_all del: handle.simps(1) add: handle_raised reported_messages effects_set_processing)
  show "filter is_display (effects (fst (pipeline i h jd f s))) =
     filter is_display (effects (fst (analyze i h jd f (set_processing True s)))) @
     (case snd (analyze i h jd f (set_processing True s)) of
        Raised e \<Rightarrow> fst (reported ''An error occurred: '' e) | _ \<Rightarrow> [])"
    unfolding pipeline_def a
    by (cases out) (simp_all del: handle.simps(1) add: handle_raised reported_def effects_set_processing)
  show "snd (pipeline i h jd f s) =
     (case snd (analyze i h jd f (set_processing True s)) of
        Raised e \<Rightarrow> snd (reported ''An error occurred: '' e) | _ \<Rightarrow> None)"
    unfolding pipeline_def a by (cases out) (simp_all del: handle.simps(1) add: handle_raised)
  show "processing (fst (pipeline i h jd f s)) = Some False"
    unfolding pipeline_def a by (simp del: handle.simps(1) add: handle_raised)
  show "last (effects (fst (pipeline i h jd f s))) = Set_processing False"
    unfolding pipeline_def a
    by (cases out) (simp_all del: handle.simps(1) add: handle_raised effects_set_processing)
qed

subsection \<open>Whole runs\<close>

text \<open>
  A run reaches the pipeline when there is a credential, the client is configured and
  the submission has both inputs; it then is the pipeline from \<open>before_pipeline\<close>.
\<close>

lemma before_pipeline_quiet:
  "filter is_signal (effects (before_pipeline c session)) = []"
  "filter is_message (effects (before_pipeline c session)) = []"
  "filter is_stage (effects (before_pipeline c session)) = []"
  "Set_processing True \<notin> set (effects (before_pipeline c session))"
  by (simp_all add: before_pipeline_def effects_emit page_def init_session_state_def
    effects_set_processing)

lemma run_ready:
  assumes "truthy (get_api_key c)"
    and "configure_genai h (get_api_key c) = Inr u"
    and "button w" and "text_area w \<noteq> []" and "file_uploader w = Some f"
  shows "run i c h w session = pipeline i h (text_area w) f (before_pipeline c session)"
  using assms
  by (cases session) (simp_all add: run_def main_def before_pipeline_def processing_page
    processing_emit init_session_state_def processing_set_processing)


lemma display_results_outcome:
  "snd (display_results rj s) = snd (display_results rj s')"
  by (simp add: display_results_def Let_def split: sum.splits)

lemma run_not_ready:
  assumes "\<not> (truthy (get_api_key c) \<and> (\<exists>u. configure_genai h (get_api_key c) = Inr u)
      \<and> button w \<and> text_area w \<noteq> [] \<and> file_uploader w \<noteq> None)"
  shows "Set_processing True \<notin> set (effects (fst (run i c h w session)))
     \<and> stages (run i c h w session) = [] \<and> signals (run i c h w session) = []
     \<and> (session \<noteq> Some True \<longrightarrow> processing (fst (run i c h w session)) = Some False)"
  using assms
  by (cases session; cases "configure_genai h (get_api_key c)"; cases "file_uploader w")
     (auto simp: run_def main_def stages_def signals_def st_error_def effects_emit
       processing_emit page_def init_session_state_def effects_set_processing
       processing_set_processing Let_def)

lemma run_without_credential:
  assumes "\<not> truthy (get_api_key c)"
  shows "run i c h w session =
     (\<lparr>processing = Some (session = Some True),
       effects = (if session = None then [Set_processing False] else []) @
         [St_error ''API Key not found. Please check your configuration.'']\<rparr>, None)"
  using assms
  by (cases session) (auto simp: run_def main_def init_session_state_def set_processing_def emit_def)

lemma run_configure_raises:
  assumes "truthy (get_api_key c)" and "configure_genai h (get_api_key c) = Inl e"
  shows "messages (run i c h w session) = fst (reported ''Failed to configure API: '' e)"
    and "snd (run i c h w session) = snd (reported ''Failed to configure API: '' e)"
    and "displays (run i c h w session) = fst (reported ''Failed to configure API: '' e)"
  using assms
  by (cases session; simp add: run_def main_def messages_def displays_def reported_def st_error_def
       effects_emit init_session_state_def effects_set_processing Let_def)+

lemma run_incomplete:
  assumes "truthy (get_api_key c)"
    and "configure_genai h (get_api_key c) = Inr u"
    and "button w"
    and "text_area w = [] \<or> file_uploader w = None"
  shows "messages (run i c h w session) =
       [St_warning (if text_area w = [] then ''Please provide a job description.''
                    else ''Please upload a resume in PDF format.'')]
     \<and> last (displays (run i c h w session)) =
         St_warning (if text_area w = [] then ''Please provide a job description.''
                     else ''Please upload a resume in PDF format.'')
     \<and> Set_processing True \<notin> set (effects (fst (run i c h w session)))
     \<and> stages (run i c h w session) = []
     \<and> signals (run i c h w session) = []
     \<and> snd (run i c h w session) = None"
  using assms
  by (cases session; cases "file_uploader w")
     (auto simp: run_def main_def stages_def signals_def messages_def displays_def effects_emit
       processing_emit page_def init_session_state_def effects_set_processing
       processing_set_processing Let_def)

lemma run_idle:
  assumes "truthy (get_api_key c)"
    and "configure_genai h (get_api_key c) = Inr u"
    and "\<not> button w"
  shows "messages (run i c h w session) = [] \<and> signals (run i c h w session) = []
     \<and> stages (run i c h w session) = [] \<and> snd (run i c h w session) = None"
  using assms
  by (cases session)
     (auto simp: run_def main_def stages_def signals_def messages_def effects_emit
       processing_emit page_def init_session_state_def effects_set_processing
       processing_set_processing Let_def)

lemma run_raised:
  assumes "truthy (get_api_key c)"
    and "configure_genai h (get_api_key c) = Inr u"
    and "button w" and "text_area w \<noteq> []" and "file_uploader w = Some f"
    and "snd (analyze i h (text_area w) f (set_processing True (before_pipeline c session))) = Raised e"
    and "effects (fst (analyze i h (text_area w) f (set_processing True (before_pipeline c session)))) =
         effects (set_processing True (before_pipeline c session)) @ xs"
    and "filter is_message xs = []"
  shows "messages (run i c h w session) = fst (reported ''An error occurred: '' e)"
    and "snd (run i c h w session) = snd (reported ''An error occurred: '' e)"
    and "signals (run i c h w session) = filter is_signal xs"
    and "last (displays (run i c h w session)) =
         last (filter is_display (effects (before_pipeline c session) @ xs) @
               fst (reported ''An error occurred: '' e))"
    and "processing (fst (run i c h w session)) = Some False"
  unfolding run_ready [OF assms(1-5)] messages_def signals_def displays_def pipeline_by_outcome
    assms(6,7)
  using assms(8)
  by (simp_all add: effects_set_processing before_pipeline_quiet)

lemma run_returned:
  assumes "truthy (get_api_key c)"
    and "configure_genai h (get_api_key c) = Inr u"
    and "button w" and "text_area w \<noteq> []" and "file_uploader w = Some f"
    and "snd (analyze i h (text_area w) f (set_processing True (before_pipeline c session))) = ended"
    and "ended = Returned \<or> ended = Completed"
    and "effects (fst (analyze i h (text_area w) f (set_processing True (before_pipeline c session)))) =
         effects (set_processing True (before_pipeline c session)) @ xs"
  shows "messages (run i c h w session) = filter is_message xs"
    and "snd (run i c h w session) = None"
    and "signals (run i c h w session) = filter is_signal xs"
    and "displays (run i c h w session) =
         filter is_display (effects (before_pipeline c session) @ xs)"
    and "processing (fst (run i c h w session)) = Some False"
  unfolding run_ready [OF assms(1-5)] messages_def signals_def displays_def pipeline_by_outcome
    assms(6,8)
  using assms(7)
  by (auto simp: effects_set_processing before_pipeline_quiet)

text \<open>
  An object is never a token of its own, so a response that parses to an object was
  parsed with a call left for it.
\<close>

lemma scan_scalar_Value: "scan_scalar cs = Some (Value (PyDict d), rest) \<Longrightarrow> False"
  by (auto simp: scan_scalar_def match_number_def split: if_splits option.splits prod.splits)

lemma tokenize_Value: "Scalar (Value (PyDict d)) \<notin> set (tokenize s)"
  by (induction s rule: tokenize.induct)
     (auto simp: structural_def split: option.splits if_splits dest: scan_scalar_Value)

lemma json_loads_dict_depth:
  assumes "json_loads i r = Inr (PyDict d)"
  shows "0 < recursion_limit i"
proof (rule ccontr)
  assume "\<not> 0 < recursion_limit i"
  then have z: "recursion_limit i = 0" by simp
  show False
  proof (cases "tokenize r")
    case Nil
    with assms show False by (simp add: json_loads_def)
  next
    case (Cons t ts)
    show False
    proof (cases t)
      case (Scalar x)
      show False
      proof (cases x)
        case (Value v)
        with assms Cons Scalar have "v = PyDict d"
          by (simp add: json_loads_def split: if_splits)
        with Cons Scalar Value tokenize_Value [of d r] show False by simp
      next
        case (Integer neg ds)
        with assms Cons Scalar show False
          by (simp add: json_loads_def parse_int_def split: if_splits)
      next
        case (Constant c)
        with assms Cons Scalar z show False by (simp add: json_loads_def)
      qed
    next
      case LBrace
      show False
      proof (cases ts)
        case Nil
        with assms Cons LBrace z show False by (simp add: json_loads_def)
      next
        case (Cons a list)
        with assms \<open>tokenize r = t # ts\<close> LBrace z show False
          by (cases a) (simp_all add: json_loads_def)
      qed
    next
      case LBracket
      show False
      proof (cases ts)
        case Nil
        with assms Cons LBracket z show False by (simp add: json_loads_def)
      next
        case (Cons a list)
        with assms \<open>tokenize r = t # ts\<close> LBracket z show False
          by (cases a) (simp_all add: json_loads_def)
      qed
    qed (use assms Cons in \<open>simp_all add: json_loads_def\<close>)
  qed
qed

text \<open>The decoder at work: what it accepts beyond a plain object, and what it refuses.\<close>

lemma json_loads_accepts:
  \<open>json_loads cpython '' [1, -2.50e3, true, null, {"a": {}, "a": [[]]}] '' =
     Inr (PyList [PyInt 1, PyFloat (Decimal True 250 1), PyBool True, PyNone,
                  PyDict [(''a'', PyList [PyList []])]])\<close>
  \<open>json_loads cpython ''-Infinity'' = Inr (PyFloat (Infinity True))\<close>
  \<open>json_loads cpython ''"a/b"'' = Inr (PyStr ''a/b'')\<close>
  by code_simp+

lemma json_loads_refuses:
  \<open>json_loads cpython [] = Inl JSONDecodeError\<close>
  \<open>json_loads cpython ''[1,]'' = Inl JSONDecodeError\<close>
  \<open>json_loads cpython ''{"a": 1,}'' = Inl JSONDecodeError\<close>
  \<open>json_loads cpython ''{"a" 1}'' = Inl JSONDecodeError\<close>
  \<open>json_loads cpython ''01'' = Inl JSONDecodeError\<close>
  \<open>json_loads cpython ''"abc'' = Inl JSONDecodeError\<close>
  \<open>json_loads cpython ''{} {}'' = Inl JSONDecodeError\<close>
  by code_simp+

subsection \<open>The examples\<close>

text \<open>
  The two answers of the specification on any interpreter with the calls they need, and
  the runs of one answer on two interpreters that decode it alike.
\<close>

lemma tokenize_only_summary:
  "tokenize only_summary =
     [LBrace, Scalar (Value (PyStr ''Profile Summary'')), Colon, Scalar (Value (PyStr ''ok'')),
      RBrace]"
  by code_simp

lemma json_loads_only_summary:
  "0 < recursion_limit i \<Longrightarrow>
   json_loads i only_summary = Inr (PyDict [(''Profile Summary'', PyStr ''ok'')])"
  by (simp add: json_loads_def tokenize_only_summary py_dict_def)

lemma tokenize_full_response:
  "tokenize full_response =
     [LBrace, Scalar (Value (PyStr ''JD Match'')), Colon, Scalar (Value (PyStr ''82%'')), Comma,
      Scalar (Value (PyStr ''MissingKeywords'')), Colon,
      LBracket, Scalar (Value (PyStr ''Docker'')), Comma, Scalar (Value (PyStr ''Kubernetes'')),
      RBracket, Comma,
      Scalar (Value (PyStr ''Profile Summary'')), Colon,
      Scalar (Value (PyStr ''Strong backend profile'')), RBrace]"
  by code_simp

lemma json_loads_full_response:
  "2 \<le> recursion_limit i \<Longrightarrow>
   json_loads i full_response =
     Inr (PyDict [(''JD Match'', PyStr ''82%''),
                  (''MissingKeywords'', PyList [PyStr ''Docker'', PyStr ''Kubernetes'']),
                  (''Profile Summary'', PyStr ''Strong backend profile'')])"
  by (simp add: json_loads_def tokenize_full_response py_dict_def)

lemma run_interpreter:
  assumes "json_loads i r = json_loads i' r"
  shows "run i c (answering r) w session = run i' c (answering r) w session"
proof -
  have "\<And>jd f s. analyze i (answering r) jd f s = analyze i' (answering r) jd f s"
    by (simp add: analyze_def answering_def assms)
  then have p: "pipeline i (answering r) = pipeline i' (answering r)"
    by (intro ext) (simp add: pipeline_def)
  show ?thesis unfolding run_def main_def p by (rule refl)
qed

text \<open>Joining strings, and the signals of a response whose fields can be displayed.\<close>

lemma join_Cons: "join sep (x # xs) = x @ concat (map ((@) sep) xs)"
  by (induction xs arbitrary: x) simp_all

lemma str_items_strings: "str_items i (map PyStr ks) = Inr ks"
  by (induction ks arbitrary: i) simp_all


lemma display_results_keywords:
  assumes "match_percentage rj = Inr mp" and "st_metric ''Match Score'' mp = Inr m"
    and "missing_keywords rj = Inr kw" and "keywords_text kw = Inr t"
    and "profile_summary rj = Inr ps"
  shows "(encodable t \<and> (\<exists>shown. st_write ps = Inr shown) \<longrightarrow>
       filter is_signal (effects (fst (display_results rj s))) =
         filter is_signal (effects s) @ [St_metric ''Match Score'' mp, St_write (PyStr t), St_write ps]
       \<and> snd (display_results rj s) = Completed)
     \<and> (encodable t \<and> st_write ps = Inl UnicodeEncodeError \<longrightarrow>
       filter is_signal (effects (fst (display_results rj s))) =
         filter is_signal (effects s) @ [St_metric ''Match Score'' mp, St_write (PyStr t)]
       \<and> snd (display_results rj s) = Raised UnicodeEncodeError)
     \<and> (\<not> encodable t \<longrightarrow>
       filter is_signal (effects (fst (display_results rj s))) =
         filter is_signal (effects s) @ [St_metric ''Match Score'' mp]
       \<and> snd (display_results rj s) = Raised UnicodeEncodeError)"
proof (cases "encodable t")
  case False
  with assms st_metric_Inr [OF assms(2)] show ?thesis
    by (simp add: display_results_def effects_emit)
next
  case True
  show ?thesis
  proof (cases "st_write ps")
    case (Inl e)
    with True assms st_metric_Inr [OF assms(2)] st_write_Inl [OF Inl] show ?thesis
      by (simp add: display_results_def effects_emit)
  next
    case (Inr shown)
    with True assms st_metric_Inr [OF assms(2)] st_write_Inr [OF Inr] show ?thesis
      by (simp add: display_results_def effects_emit)
  qed
qed

lemma run_decoder_raises:
  assumes "truthy (get_api_key c)"
    and "configure_genai h (get_api_key c) = Inr u"
    and "button w" and "text_area w \<noteq> []" and "file_uploader w = Some f"
    and "extract_pdf_text h f = Inr t"
    and "prepare_prompt h t (text_area w) = Inr p"
    and "get_gemini_response h p = Inr r"
    and "json_loads i r = Inl e"
  shows "messages (run i c h w session) =
       [if e = JSONDecodeError then St_error ''Error parsing response. Please try again.''
        else St_error_exn ''An error occurred: '' e]"
    and "last (displays (run i c h w session)) =
       (if e = JSONDecodeError then St_error ''Error parsing response. Please try again.''
        else St_error_exn ''An error occurred: '' e)"
    and "signals (run i c h w session) = []"
    and "snd (run i c h w session) = None"
    and "processing (fst (run i c h w session)) = Some False"
proof -
  let ?s = "set_processing True (before_pipeline c session)"
  have "messages (run i c h w session) =
       [if e = JSONDecodeError then St_error ''Error parsing response. Please try again.''
        else St_error_exn ''An error occurred: '' e]
     \<and> last (displays (run i c h w session)) =
       (if e = JSONDecodeError then St_error ''Error parsing response. Please try again.''
        else St_error_exn ''An error occurred: '' e)
     \<and> signals (run i c h w session) = []
     \<and> snd (run i c h w session) = None
     \<and> processing (fst (run i c h w session)) = Some False"
  proof (cases "e = JSONDecodeError")
    case True
    from analyze_paths(4) [OF assms(6-8) assms(9) [unfolded True], of ?s]
    have o: "snd (analyze i h (text_area w) f ?s) = Returned"
      and x: "effects (fst (analyze i h (text_area w) f ?s)) =
         effects ?s @ [St_spinner ([CHR 0xF0, CHR 0x9F, CHR 0x93, CHR 0x8A] @ '' Analyzing your resume...''),
                      Extract_pdf_text f, Prepare_prompt t (text_area w), Get_gemini_response p,
                      St_error ''Error parsing response. Please try again.'']"
      by simp_all
    from run_returned [OF assms(1-5) o _ x] True show ?thesis by simp
  next
    case False
    with json_loads_error [OF assms(9)] have "e = RecursionError \<or> e = ValueError" by simp
    then have rep: "reported ''An error occurred: '' e = ([St_error_exn ''An error occurred: '' e], None)"
      by (auto simp: reported_def)
    from analyze_paths(5) [OF assms(6-9) False, of ?s]
    have o: "snd (analyze i h (text_area w) f ?s) = Raised e"
      and x: "effects (fst (analyze i h (text_area w) f ?s)) =
         effects ?s @ [St_spinner ([CHR 0xF0, CHR 0x9F, CHR 0x93, CHR 0x8A] @ '' Analyzing your resume...''),
                      Extract_pdf_text f, Prepare_prompt t (text_area w), Get_gemini_response p]"
      by simp_all
    from run_raised [OF assms(1-5) o x] False rep show ?thesis by simp
  qed
  then show "messages (run i c h w session) =
       [if e = JSONDecodeError then St_error ''Error parsing response. Please try again.''
        else St_error_exn ''An error occurred: '' e]"
    and "last (displays (run i c h w session)) =
       (if e = JSONDecodeError then St_error ''Error parsing response. Please try again.''
        else St_error_exn ''An error occurred: '' e)"
    and "signals (run i c h w session) = []"
    and "snd (run i c h w session) = None"
    and "processing (fst (run i c h w session)) = Some False"
    by simp_all
qed

lemma a_run_is_ready:
  "truthy (get_api_key a_config)"
  "configure_genai (answering r) (get_api_key a_config) = Inr ()"
  "configure_genai (failing e) (get_api_key a_config) = Inr ()"
  "button a_submission" "text_area a_submission \<noteq> []"
  "file_uploader a_submission = Some ''%PDF''"
  "extract_pdf_text (answering r) ''%PDF'' = Inr ''resume''"
  "prepare_prompt (answering r) ''resume'' (text_area a_submission) = Inr ''resume / job''"
  "get_gemini_response (answering r) ''resume / job'' = Inr r"
  "extract_pdf_text (failing e) ''%PDF'' = Inr ''resume''"
  "prepare_prompt (failing e) ''resume'' (text_area a_submission) = Inr ''resume / job''"
  "get_gemini_response (failing e) ''resume / job'' = Inl e"
  by (simp_all add: get_api_key_def st_secrets_def a_config_def answering_def failing_def
    a_submission_def)

lemma json_loads_deep_nesting: "json_loads cpython deep_nesting = Inl RecursionError"
  by (simp add: deep_nesting_def json_loads_brackets cpython_def)

section \<open>The claims\<close>

text \<open>
  C1 as stated fails, in both directions. A text that is not valid JSON because its
  brackets never close, and that opens more of them than the interpreter allows, makes
  \<^verbatim>\<open>json.loads\<close> raise a \<^verbatim>\<open>RecursionError\<close>, which the handler for
  \<^verbatim>\<open>json.JSONDecodeError\<close> does not catch: the run shows the generic message and not the
  parse-error message. And a text with the constant \<^verbatim>\<open>NaN\<close> is not valid JSON, yet
  \<^verbatim>\<open>json.loads\<close> accepts it: the run emits all three signals and no message.
\<close>

theorem parse_failure_counterexample:
  "\<not> valid_json deep_nesting
   \<and> json_loads cpython deep_nesting = Inl RecursionError
   \<and> messages (run cpython a_config (answering deep_nesting) a_submission None) =
       [St_error_exn ''An error occurred: '' RecursionError]
   \<and> \<not> valid_json nan_score
   \<and> json_loads cpython nan_score = Inr (PyDict [(''JD Match'', PyFloat NaN)])
   \<and> signals (run cpython a_config (answering nan_score) a_submission None) =
       [St_metric ''Match Score'' (PyFloat NaN),
        St_write (PyStr ''No critical missing keywords found!''),
        St_write (PyStr ''No summary available'')]
   \<and> messages (run cpython a_config (answering nan_score) a_submission None) = []"
proof -
  have "json_loads \<lparr>recursion_limit = length deep_nesting, int_max_str_digits = 0\<rparr> deep_nesting =
      Inl JSONDecodeError"
    by (simp add: deep_nesting_def json_loads_brackets)
  then have 1: "\<not> valid_json deep_nesting" by (simp add: valid_json_def)
  have 2: "messages (run cpython a_config (answering deep_nesting) a_submission None) =
       [St_error_exn ''An error occurred: '' RecursionError]"
    using run_decoder_raises(1) [OF a_run_is_ready(1,2,4-9) json_loads_deep_nesting, of None]
    by simp
  have 3: "\<not> valid_json nan_score" by code_simp
  have 4: "json_loads cpython nan_score = Inr (PyDict [(''JD Match'', PyFloat NaN)])"
    by code_simp
  have 5: "signals (run cpython a_config (answering nan_score) a_submission None) =
       [St_metric ''Match Score'' (PyFloat NaN),
        St_write (PyStr ''No critical missing keywords found!''),
        St_write (PyStr ''No summary available'')]"
    by code_simp
  have 6: "messages (run cpython a_config (answering nan_score) a_submission None) = []"
    by code_simp
  from 1 json_loads_deep_nesting 2 3 4 5 6 show ?thesis by simp
qed

text \<open>
  C1, amended. Whenever \<^verbatim>\<open>json.loads\<close> raises on the text the model returns, the run
  emits none of the three output signals, shows exactly one message, as its last
  display, returns normally and leaves the guard cleared. The exception is a
  \<^verbatim>\<open>JSONDecodeError\<close>, a \<^verbatim>\<open>RecursionError\<close> or a \<^verbatim>\<open>ValueError\<close>; the message is
  \<^verbatim>\<open>Error parsing response. Please try again.\<close> for the first and the generic
  \<^verbatim>\<open>An error occurred: ...\<close> with the exception for the other two. (A text that
  \<^verbatim>\<open>json.loads\<close> accepts is displayed, valid JSON or not.)
\<close>

theorem decoder_failure_shows_one_message:
  assumes "truthy (get_api_key c)"
    and "configure_genai h (get_api_key c) = Inr u"
    and "button w" and "text_area w \<noteq> []" and "file_uploader w = Some f"
    and "extract_pdf_text h f = Inr t"
    and "prepare_prompt h t (text_area w) = Inr p"
    and "get_gemini_response h p = Inr r"
    and "json_loads i r = Inl e"
  shows "(e = JSONDecodeError \<or> e = RecursionError \<or> e = ValueError)
     \<and> messages (run i c h w session) =
         [if e = JSONDecodeError then St_error ''Error parsing response. Please try again.''
          else St_error_exn ''An error occurred: '' e]
     \<and> last (displays (run i c h w session)) =
         (if e = JSONDecodeError then St_error ''Error parsing response. Please try again.''
          else St_error_exn ''An error occurred: '' e)
     \<and> signals (run i c h w session) = []
     \<and> snd (run i c h w session) = None
     \<and> processing (fst (run i c h w session)) = Some False"
  using json_loads_error [OF assms(9)] run_decoder_raises [OF assms, of session]
  by simp

theorem decoder_failure_witness:
  "messages (run cpython a_config (answering ''not json'') a_submission None) =
     [St_error ''Error parsing response. Please try again.'']
   \<and> signals (run cpython a_config (answering ''not json'') a_submission None) = []
   \<and> snd (run cpython a_config (answering ''not json'') a_submission None) = None
   \<and> last (displays (run cpython a_config (answering deep_nesting) a_submission None)) =
       St_error_exn ''An error occurred: '' RecursionError
   \<and> signals (run cpython a_config (answering deep_nesting) a_submission None) = []
   \<and> snd (run cpython a_config (answering deep_nesting) a_submission None) = None"
proof -
  have j: "json_loads cpython ''not json'' = Inl JSONDecodeError" by code_simp
  from decoder_failure_shows_one_message [OF a_run_is_ready(1,2,4-9) j, of None]
    decoder_failure_shows_one_message [OF a_run_is_ready(1,2,4-9) json_loads_deep_nesting, of None]
  show ?thesis by simp
qed

text \<open>
  C2. Every run that sets the in-flight guard ends with the guard cleared, and clearing
  it is the last thing the run does: on success, on the early return after a parse
  failure, after an exception that was caught, and also when an exception that
  \<^verbatim>\<open>except Exception\<close> does not catch leaves \<^verbatim>\<open>main\<close>.
\<close>

theorem guard_cleared_on_every_exit:
  assumes "Set_processing True \<in> set (effects (fst (run i c h w session)))"
  shows "processing (fst (run i c h w session)) = Some False
     \<and> last (effects (fst (run i c h w session))) = Set_processing False"
proof -
  from assms run_not_ready [of c h w i session]
  obtain u f where "truthy (get_api_key c)" "configure_genai h (get_api_key c) = Inr u"
    "button w" "text_area w \<noteq> []" "file_uploader w = Some f"
    by blast
  from run_ready [OF this, of i session] pipeline_by_outcome(5,6) show ?thesis by simp
qed

theorem guard_cleared_witness:
  "Set_processing True \<in> set (effects (fst (run cpython a_config (failing (BaseException ''stop'')) a_submission None)))
   \<and> snd (run cpython a_config (failing (BaseException ''stop'')) a_submission None) = Some (BaseException ''stop'')
   \<and> processing (fst (run cpython a_config (failing (BaseException ''stop'')) a_submission None)) = Some False
   \<and> last (effects (fst (run cpython a_config (failing (BaseException ''stop'')) a_submission None))) = Set_processing False"
proof -
  have 1: "Set_processing True \<in> set (effects (fst (run cpython a_config (failing (BaseException ''stop'')) a_submission None)))"
    by code_simp
  have 2: "snd (run cpython a_config (failing (BaseException ''stop'')) a_submission None) = Some (BaseException ''stop'')"
    by code_simp
  from 1 2 guard_cleared_on_every_exit [OF 1] show ?thesis by simp
qed

text \<open>
  C3 as stated fails. With every collaborator succeeding and a response that is valid
  JSON, so that none of the five kinds of error applies, a keyword that is not a string
  makes \<^verbatim>\<open>", ".join\<close> raise after the match score is out: the run shows one of the
  three signals and then the generic message. And an exception can leave \<^verbatim>\<open>main\<close>: one
  that is not of class \<^verbatim>\<open>Exception\<close>, which \<^verbatim>\<open>except Exception\<close> does not catch, and
  the \<^verbatim>\<open>UnicodeEncodeError\<close> of \<^verbatim>\<open>st.error\<close> in the handler, when the text of the
  exception that was caught cannot be encoded.
\<close>

theorem wrong_shape_counterexample:
  "\<not> well_formed_result (run cpython a_config (answering wrong_shape) a_submission None)
   \<and> spec_error_kind cpython a_config (answering wrong_shape) a_submission = None
   \<and> signals (run cpython a_config (answering wrong_shape) a_submission None) =
       [St_metric ''Match Score'' (PyStr ''82%'')]
   \<and> messages (run cpython a_config (answering wrong_shape) a_submission None) =
       [St_error_exn ''An error occurred: '' (TypeError_join_item 0 (PyInt 404))]
   \<and> snd (run cpython a_config (failing (BaseException ''stop'')) a_submission None) =
       Some (BaseException ''stop'')
   \<and> messages (run cpython a_config (failing (BaseException ''stop'')) a_submission None) = []
   \<and> snd (run cpython a_config (failing (Exception [CHR 0xED, CHR 0xA0, CHR 0x80])) a_submission None) =
       Some UnicodeEncodeError
   \<and> messages (run cpython a_config (failing (Exception [CHR 0xED, CHR 0xA0, CHR 0x80])) a_submission None) = []"
proof -
  have "signals (run cpython a_config (answering wrong_shape) a_submission None) =
       [St_metric ''Match Score'' (PyStr ''82%'')]"
    by code_simp
  moreover have "messages (run cpython a_config (answering wrong_shape) a_submission None) =
       [St_error_exn ''An error occurred: '' (TypeError_join_item 0 (PyInt 404))]"
    by code_simp
  moreover have "spec_error_kind cpython a_config (answering wrong_shape) a_submission = None"
    by code_simp
  moreover have "snd (run cpython a_config (failing (BaseException ''stop'')) a_submission None) =
       Some (BaseException ''stop'')"
    by code_simp
  moreover have "messages (run cpython a_config (failing (BaseException ''stop'')) a_submission None) = []"
    by code_simp
  moreover have "snd (run cpython a_config (failing (Exception [CHR 0xED, CHR 0xA0, CHR 0x80])) a_submission None) =
       Some UnicodeEncodeError"
    by code_simp
  moreover have "messages (run cpython a_config (failing (Exception [CHR 0xED, CHR 0xA0, CHR 0x80])) a_submission None) = []"
    by code_simp
  ultimately show ?thesis by (simp add: well_formed_result_def)
qed

text \<open>
  C3, amended. Every run is one of the following, and ends as said there.
  With no credential: the configuration error is the only message. When configuring the
  client raises: what \<open>reported\<close> says of that exception, under
  \<^verbatim>\<open>Failed to configure API: \<close>. With no submission: nothing. With a submission that
  lacks an input: the validation warning. With a complete submission the guard is
  cleared at the end, and: when the PDF extractor, the prompt builder or the model
  client raises, the run shows no signal and ends as \<open>reported\<close> says of that exception
  under \<^verbatim>\<open>An error occurred: \<close> (the message with that exception and a normal return
  when it is of class \<^verbatim>\<open>Exception\<close> and its text can be encoded; otherwise no message,
  and the exception, or the \<^verbatim>\<open>UnicodeEncodeError\<close> of \<^verbatim>\<open>st.error\<close>, leaves
  \<^verbatim>\<open>main\<close>); when \<^verbatim>\<open>json.loads\<close> raises, no signal and one message, the parse error for a
  \<^verbatim>\<open>JSONDecodeError\<close> and the generic one otherwise; when the response parses, either
  displaying it completes, with all three signals and no message, or it raises, and
  then fewer than three signals are followed by the generic message with that very
  exception. In each case no other message is shown; and a session that was not in
  flight is left with the guard cleared.
\<close>

theorem every_run_ends_as_its_path_says:
  "(\<not> truthy (get_api_key c) \<longrightarrow>
      messages (run i c h w session) = [St_error ''API Key not found. Please check your configuration.'']
      \<and> signals (run i c h w session) = [] \<and> stages (run i c h w session) = []
      \<and> snd (run i c h w session) = None)
   \<and> (truthy (get_api_key c) \<and> configure_genai h (get_api_key c) = Inl e \<longrightarrow>
      messages (run i c h w session) = fst (reported ''Failed to configure API: '' e)
      \<and> snd (run i c h w session) = snd (reported ''Failed to configure API: '' e)
      \<and> signals (run i c h w session) = [] \<and> stages (run i c h w session) = [])
   \<and> (truthy (get_api_key c) \<and> configure_genai h (get_api_key c) = Inr u \<and> \<not> button w \<longrightarrow>
      messages (run i c h w session) = [] \<and> signals (run i c h w session) = []
      \<and> stages (run i c h w session) = [] \<and> snd (run i c h w session) = None)
   \<and> (truthy (get_api_key c) \<and> configure_genai h (get_api_key c) = Inr u \<and> button w
      \<and> (text_area w = [] \<or> file_uploader w = None) \<longrightarrow>
      messages (run i c h w session) =
        [St_warning (if text_area w = [] then ''Please provide a job description.''
                     else ''Please upload a resume in PDF format.'')]
      \<and> signals (run i c h w session) = [] \<and> stages (run i c h w session) = []
      \<and> snd (run i c h w session) = None)
   \<and> (truthy (get_api_key c) \<and> configure_genai h (get_api_key c) = Inr u \<and> button w
      \<and> text_area w \<noteq> [] \<and> file_uploader w = Some f \<longrightarrow>
      processing (fst (run i c h w session)) = Some False
      \<and> (extract_pdf_text h f = Inl e \<longrightarrow>
           messages (run i c h w session) = fst (reported ''An error occurred: '' e)
           \<and> snd (run i c h w session) = snd (reported ''An error occurred: '' e)
           \<and> signals (run i c h w session) = [])
      \<and> (extract_pdf_text h f = Inr t \<and> prepare_prompt h t (text_area w) = Inl e \<longrightarrow>
           messages (run i c h w session) = fst (reported ''An error occurred: '' e)
           \<and> snd (run i c h w session) = snd (reported ''An error occurred: '' e)
           \<and> signals (run i c h w session) = [])
      \<and> (extract_pdf_text h f = Inr t \<and> prepare_prompt h t (text_area w) = Inr p
         \<and> get_gemini_response h p = Inl e \<longrightarrow>
           messages (run i c h w session) = fst (reported ''An error occurred: '' e)
           \<and> snd (run i c h w session) = snd (reported ''An error occurred: '' e)
           \<and> signals (run i c h w session) = [])
      \<and> (extract_pdf_text h f = Inr t \<and> prepare_prompt h t (text_area w) = Inr p
         \<and> get_gemini_response h p = Inr r \<and> json_loads i r = Inl e \<longrightarrow>
           messages (run i c h w session) =
             [if e = JSONDecodeError then St_error ''Error parsing response. Please try again.''
              else St_error_exn ''An error occurred: '' e]
           \<and> snd (run i c h w session) = None
           \<and> signals (run i c h w session) = [])
      \<and> (extract_pdf_text h f = Inr t \<and> prepare_prompt h t (text_area w) = Inr p
         \<and> get_gemini_response h p = Inr r \<and> json_loads i r = Inr rj \<longrightarrow>
           (case snd (display_results rj s) of
              Completed \<Rightarrow>
                length (signals (run i c h w session)) = 3 \<and> messages (run i c h w session) = []
                \<and> snd (run i c h w session) = None
            | Returned \<Rightarrow> False
            | Raised e \<Rightarrow>
                length (signals (run i c h w session)) < 3
                \<and> messages (run i c h w session) = [St_error_exn ''An error occurred: '' e]
                \<and> snd (run i c h w session) = None)))
   \<and> (session \<noteq> Some True \<longrightarrow> processing (fst (run i c h w session)) = Some False)"
proof -
  let ?s = "set_processing True (before_pipeline c session)"
  have c1: "(\<not> truthy (get_api_key c) \<longrightarrow>
      messages (run i c h w session) = [St_error ''API Key not found. Please check your configuration.'']
      \<and> signals (run i c h w session) = [] \<and> stages (run i c h w session) = []
      \<and> snd (run i c h w session) = None)"
    using run_without_credential [of c i h w session]
    by (auto simp: messages_def signals_def stages_def)
  have c2: "(truthy (get_api_key c) \<and> configure_genai h (get_api_key c) = Inl e \<longrightarrow>
      messages (run i c h w session) = fst (reported ''Failed to configure API: '' e)
      \<and> snd (run i c h w session) = snd (reported ''Failed to configure API: '' e)
      \<and> signals (run i c h w session) = [] \<and> stages (run i c h w session) = [])"
  proof
    assume a: "truthy (get_api_key c) \<and> configure_genai h (get_api_key c) = Inl e"
    then have "\<not> (truthy (get_api_key c) \<and> (\<exists>u. configure_genai h (get_api_key c) = Inr u)
      \<and> button w \<and> text_area w \<noteq> [] \<and> file_uploader w \<noteq> None)"
      by simp
    from run_not_ready [OF this, of i session] a run_configure_raises(1,2) [of c h e i w session]
    show "messages (run i c h w session) = fst (reported ''Failed to configure API: '' e)
      \<and> snd (run i c h w session) = snd (reported ''Failed to configure API: '' e)
      \<and> signals (run i c h w session) = [] \<and> stages (run i c h w session) = []"
      by simp
  qed
  have c3: "(truthy (get_api_key c) \<and> configure_genai h (get_api_key c) = Inr u \<and> \<not> button w \<longrightarrow>
      messages (run i c h w session) = [] \<and> signals (run i c h w session) = []
      \<and> stages (run i c h w session) = [] \<and> snd (run i c h w session) = None)"
    using run_idle [of c h u w i session] by simp
  have c4: "(truthy (get_api_key c) \<and> configure_genai h (get_api_key c) = Inr u \<and> button w
      \<and> (text_area w = [] \<or> file_uploader w = None) \<longrightarrow>
      messages (run i c h w session) =
        [St_warning (if text_area w = [] then ''Please provide a job description.''
                     else ''Please upload a resume in PDF format.'')]
      \<and> signals (run i c h w session) = [] \<and> stages (run i c h w session) = []
      \<and> snd (run i c h w session) = None)"
    using run_incomplete [of c h u w i session] by simp
  have c5: "(truthy (get_api_key c) \<and> configure_genai h (get_api_key c) = Inr u \<and> button w
      \<and> text_area w \<noteq> [] \<and> file_uploader w = Some f \<longrightarrow>
      processing (fst (run i c h w session)) = Some False
      \<and> (extract_pdf_text h f = Inl e \<longrightarrow>
           messages (run i c h w session) = fst (reported ''An error occurred: '' e)
           \<and> snd (run i c h w session) = snd (reported ''An error occurred: '' e)
           \<and> signals (run i c h w session) = [])
      \<and> (extract_pdf_text h f = Inr t \<and> prepare_prompt h t (text_area w) = Inl e \<longrightarrow>
           messages (run i c h w session) = fst (reported ''An error occurred: '' e)
           \<and> snd (run i c h w session) = snd (reported ''An error occurred: '' e)
           \<and> signals (run i c h w session) = [])
      \<and> (extract_pdf_text h f = Inr t \<and> prepare_prompt h t (text_area w) = Inr p
         \<and> get_gemini_response h p = Inl e \<longrightarrow>
           messages (run i c h w session) = fst (reported ''An error occurred: '' e)
           \<and> snd (run i c h w session) = snd (reported ''An error occurred: '' e)
           \<and> signals (run i c h w session) = [])
      \<and> (extract_pdf_text h f = Inr t \<and> prepare_prompt h t (text_area w) = Inr p
         \<and> get_gemini_response h p = Inr r \<and> json_loads i r = Inl e \<longrightarrow>
           messages (run i c h w session) =
             [if e = JSONDecodeError then St_error ''Error parsing response. Please try again.''
              else St_error_exn ''An error occurred: '' e]
           \<and> snd (run i c h w session) = None
           \<and> signals (run i c h w session) = [])
      \<and> (extract_pdf_text h f = Inr t \<and> prepare_prompt h t (text_area w) = Inr p
         \<and> get_gemini_response h p = Inr r \<and> json_loads i r = Inr rj \<longrightarrow>
           (case snd (display_results rj s) of
              Completed \<Rightarrow>
                length (signals (run i c h w session)) = 3 \<and> messages (run i c h w session) = []
                \<and> snd (run i c h w session) = None
            | Returned \<Rightarrow> False
            | Raised e \<Rightarrow>
                length (signals (run i c h w session)) < 3
                \<and> messages (run i c h w session) = [St_error_exn ''An error occurred: '' e]
                \<and> snd (run i c h w session) = None)))"
  proof
    assume a: "truthy (get_api_key c) \<and> configure_genai h (get_api_key c) = Inr u \<and> button w
      \<and> text_area w \<noteq> [] \<and> file_uploader w = Some f"
    then have ready: "truthy (get_api_key c)" "configure_genai h (get_api_key c) = Inr u" "button w"
      "text_area w \<noteq> []" "file_uploader w = Some f"
      by simp_all
    note raised = run_raised [OF ready, of i session]
    note returned = run_returned [OF ready, of i session]
    have d0: "processing (fst (run i c h w session)) = Some False"
      unfolding run_ready [OF ready] by (rule pipeline_by_outcome(5))
    have d1: "(extract_pdf_text h f = Inl e \<longrightarrow>
           messages (run i c h w session) = fst (reported ''An error occurred: '' e)
           \<and> snd (run i c h w session) = snd (reported ''An error occurred: '' e)
           \<and> signals (run i c h w session) = [])"
    proof
      assume x: "extract_pdf_text h f = Inl e"
      from analyze_paths(1) [OF x, of i "text_area w" ?s]
      have o: "snd (analyze i h (text_area w) f ?s) = Raised e"
        and e: "effects (fst (analyze i h (text_area w) f ?s)) = effects ?s @
            [St_spinner ([CHR 0xF0, CHR 0x9F, CHR 0x93, CHR 0x8A] @ '' Analyzing your resume...''),
             Extract_pdf_text f]"
        by simp_all
      from raised(1-3) [OF o e]
      show "messages (run i c h w session) = fst (reported ''An error occurred: '' e)
           \<and> snd (run i c h w session) = snd (reported ''An error occurred: '' e)
           \<and> signals (run i c h w session) = []"
        by simp
    qed
    have d2: "(extract_pdf_text h f = Inr t \<and> prepare_prompt h t (text_area w) = Inl e \<longrightarrow>
           messages (run i c h w session) = fst (reported ''An error occurred: '' e)
           \<and> snd (run i c h w session) = snd (reported ''An error occurred: '' e)
           \<and> signals (run i c h w session) = [])"
    proof
      assume x: "extract_pdf_text h f = Inr t \<and> prepare_prompt h t (text_area w) = Inl e"
      from analyze_paths(2) [of h f t "text_area w" e i ?s] x
      have o: "snd (analyze i h (text_area w) f ?s) = Raised e"
        and e: "effects (fst (analyze i h (text_area w) f ?s)) = effects ?s @
            [St_spinner ([CHR 0xF0, CHR 0x9F, CHR 0x93, CHR 0x8A] @ '' Analyzing your resume...''),
             Extract_pdf_text f, Prepare_prompt t (text_area w)]"
        by simp_all
      from raised(1-3) [OF o e]
      show "messages (run i c h w session) = fst (reported ''An error occurred: '' e)
           \<and> snd (run i c h w session) = snd (reported ''An error occurred: '' e)
           \<and> signals (run i c h w session) = []"
        by simp
    qed
    have d3: "(extract_pdf_text h f = Inr t \<and> prepare_prompt h t (text_area w) = Inr p
         \<and> get_gemini_response h p = Inl e \<longrightarrow>
           messages (run i c h w session) = fst (reported ''An error occurred: '' e)
           \<and> snd (run i c h w session) = snd (reported ''An error occurred: '' e)
           \<and> signals (run i c h w session) = [])"
    proof
      assume x: "extract_pdf_text h f = Inr t \<and> prepare_prompt h t (text_area w) = Inr p
         \<and> get_gemini_response h p = Inl e"
      from analyze_paths(3) [of h f t "text_area w" p e i ?s] x
      have o: "snd (analyze i h (text_area w) f ?s) = Raised e"
        and e: "effects (fst (analyze i h (text_area w) f ?s)) = effects ?s @
            [St_spinner ([CHR 0xF0, CHR 0x9F, CHR 0x93, CHR 0x8A] @ '' Analyzing your resume...''),
             Extract_pdf_text f, Prepare_prompt t (text_area w), Get_gemini_response p]"
        by simp_all
      from raised(1-3) [OF o e]
      show "messages (run i c h w session) = fst (reported ''An error occurred: '' e)
           \<and> snd (run i c h w session) = snd (reported ''An error occurred: '' e)
           \<and> signals (run i c h w session) = []"
        by simp
    qed
    have d4: "(extract_pdf_text h f = Inr t \<and> prepare_prompt h t (text_area w) = Inr p
         \<and> get_gemini_response h p = Inr r \<and> json_loads i r = Inl e \<longrightarrow>
           messages (run i c h w session) =
             [if e = JSONDecodeError then St_error ''Error parsing response. Please try again.''
              else St_error_exn ''An error occurred: '' e]
           \<and> snd (run i c h w session) = None
           \<and> signals (run i c h w session) = [])"
    proof
      assume x: "extract_pdf_text h f = Inr t \<and> prepare_prompt h t (text_area w) = Inr p
         \<and> get_gemini_response h p = Inr r \<and> json_loads i r = Inl e"
      then have x: "extract_pdf_text h f = Inr t" "prepare_prompt h t (text_area w) = Inr p"
        "get_gemini_response h p = Inr r" "json_loads i r = Inl e"
        by simp_all
      from run_decoder_raises(1,3,4) [OF ready x, of session]
      show "messages (run i c h w session) =
             [if e = JSONDecodeError then St_error ''Error parsing response. Please try again.''
              else St_error_exn ''An error occurred: '' e]
           \<and> snd (run i c h w session) = None
           \<and> signals (run i c h w session) = []"
        by simp
    qed
    have d5: "(extract_pdf_text h f = Inr t \<and> prepare_prompt h t (text_area w) = Inr p
         \<and> get_gemini_response h p = Inr r \<and> json_loads i r = Inr rj \<longrightarrow>
           (case snd (display_results rj s) of
              Completed \<Rightarrow>
                length (signals (run i c h w session)) = 3 \<and> messages (run i c h w session) = []
                \<and> snd (run i c h w session) = None
            | Returned \<Rightarrow> False
            | Raised e \<Rightarrow>
                length (signals (run i c h w session)) < 3
                \<and> messages (run i c h w session) = [St_error_exn ''An error occurred: '' e]
                \<and> snd (run i c h w session) = None))"
    proof
      assume x: "extract_pdf_text h f = Inr t \<and> prepare_prompt h t (text_area w) = Inr p
         \<and> get_gemini_response h p = Inr r \<and> json_loads i r = Inr rj"
      then have x: "extract_pdf_text h f = Inr t" "prepare_prompt h t (text_area w) = Inr p"
        "get_gemini_response h p = Inr r" "json_loads i r = Inr rj"
        by simp_all
      let ?s4 = "?s\<lparr>effects := effects ?s @
            [St_spinner ([CHR 0xF0, CHR 0x9F, CHR 0x93, CHR 0x8A] @ '' Analyzing your resume...''),
             Extract_pdf_text f, Prepare_prompt t (text_area w), Get_gemini_response p]\<rparr>"
      have a: "analyze i h (text_area w) f ?s = display_results rj ?s4"
        by (rule analyze_paths(6) [OF x])
      from display_results_effects [of rj ?s4] obtain xs where
        xs: "effects (fst (display_results rj ?s4)) = effects ?s4 @ xs"
          "filter is_message xs = []"
          "case snd (display_results rj ?s4) of
             Completed \<Rightarrow> length (filter is_signal xs) = 3
           | Returned \<Rightarrow> False
           | Raised e \<Rightarrow> is_Exception e \<and> str_encodable e \<and> length (filter is_signal xs) < 3"
        by blast
      have e: "effects (fst (analyze i h (text_area w) f ?s)) = effects ?s @
          ([St_spinner ([CHR 0xF0, CHR 0x9F, CHR 0x93, CHR 0x8A] @ '' Analyzing your resume...''),
             Extract_pdf_text f, Prepare_prompt t (text_area w), Get_gemini_response p] @ xs)"
        unfolding a xs(1) by simp
      have same: "snd (display_results rj s) = snd (display_results rj ?s4)"
        by (rule display_results_outcome)
      show "case snd (display_results rj s) of
              Completed \<Rightarrow>
                length (signals (run i c h w session)) = 3 \<and> messages (run i c h w session) = []
                \<and> snd (run i c h w session) = None
            | Returned \<Rightarrow> False
            | Raised e \<Rightarrow>
                length (signals (run i c h w session)) < 3
                \<and> messages (run i c h w session) = [St_error_exn ''An error occurred: '' e]
                \<and> snd (run i c h w session) = None"
      proof (cases "snd (display_results rj ?s4)")
        case Completed
        then have o: "snd (analyze i h (text_area w) f ?s) = Completed" by (simp add: a)
        from returned(1-3) [OF o _ e] xs(2,3) Completed show ?thesis
          unfolding same by simp
      next
        case Returned
        with xs(3) show ?thesis by simp
      next
        case (Raised e')
        then have o: "snd (analyze i h (text_area w) f ?s) = Raised e'" by (simp add: a)
        from xs(3) Raised have "is_Exception e'" "str_encodable e'" by simp_all
        then have rep: "reported ''An error occurred: '' e' = ([St_error_exn ''An error occurred: '' e'], None)"
          by (simp add: reported_def)
        from raised(1-3) [OF o e] xs(2,3) Raised rep show ?thesis
          unfolding same by simp
      qed
    qed
    from d0 d1 d2 d3 d4 d5
    show "processing (fst (run i c h w session)) = Some False
      \<and> (extract_pdf_text h f = Inl e \<longrightarrow>
           messages (run i c h w session) = fst (reported ''An error occurred: '' e)
           \<and> snd (run i c h w session) = snd (reported ''An error occurred: '' e)
           \<and> signals (run i c h w session) = [])
      \<and> (extract_pdf_text h f = Inr t \<and> prepare_prompt h t (text_area w) = Inl e \<longrightarrow>
           messages (run i c h w session) = fst (reported ''An error occurred: '' e)
           \<and> snd (run i c h w session) = snd (reported ''An error occurred: '' e)
           \<and> signals (run i c h w session) = [])
      \<and> (extract_pdf_text h f = Inr t \<and> prepare_prompt h t (text_area w) = Inr p
         \<and> get_gemini_response h p = Inl e \<longrightarrow>
           messages (run i c h w session) = fst (reported ''An error occurred: '' e)
           \<and> snd (run i c h w session) = snd (reported ''An error occurred: '' e)
           \<and> signals (run i c h w session) = [])
      \<and> (extract_pdf_text h f = Inr t \<and> prepare_prompt h t (text_area w) = Inr p
         \<and> get_gemini_response h p = Inr r \<and> json_loads i r = Inl e \<longrightarrow>
           messages (run i c h w session) =
             [if e = JSONDecodeError then St_error ''Error parsing response. Please try again.''
              else St_error_exn ''An error occurred: '' e]
           \<and> snd (run i c h w session) = None
           \<and> signals (run i c h w session) = [])
      \<and> (extract_pdf_text h f = Inr t \<and> prepare_prompt h t (text_area w) = Inr p
         \<and> get_gemini_response h p = Inr r \<and> json_loads i r = Inr rj \<longrightarrow>
           (case snd (display_results rj s) of
              Completed \<Rightarrow>
                length (signals (run i c h w session)) = 3 \<and> messages (run i c h w session) = []
                \<and> snd (run i c h w session) = None
            | Returned \<Rightarrow> False
            | Raised e \<Rightarrow>
                length (signals (run i c h w session)) < 3
                \<and> messages (run i c h w session) = [St_error_exn ''An error occurred: '' e]
                \<and> snd (run i c h w session) = None))"
      by (intro conjI)
  qed
  have c6: "(session \<noteq> Some True \<longrightarrow> processing (fst (run i c h w session)) = Some False)"
  proof (cases "truthy (get_api_key c) \<and> (\<exists>u. configure_genai h (get_api_key c) = Inr u)
      \<and> button w \<and> text_area w \<noteq> [] \<and> file_uploader w \<noteq> None")
    case False
    from run_not_ready [OF False, of i session] show ?thesis by simp
  next
    case True
    then obtain u f where "truthy (get_api_key c)" "configure_genai h (get_api_key c) = Inr u"
      "button w" "text_area w \<noteq> []" "file_uploader w = Some f"
      by blast
    from run_ready [OF this, of i session] pipeline_by_outcome(5) show ?thesis by simp
  qed
  from c1 c2 c3 c4 c5 c6 show ?thesis by (intro conjI)
qed

theorem every_run_witness:
  "messages (run cpython a_config (answering wrong_shape) a_submission None) =
     [St_error_exn ''An error occurred: '' (TypeError_join_item 0 (PyInt 404))]
   \<and> length (signals (run cpython a_config (answering wrong_shape) a_submission None)) < 3
   \<and> snd (run cpython a_config (answering wrong_shape) a_submission None) = None
   \<and> processing (fst (run cpython a_config (answering wrong_shape) a_submission None)) = Some False
   \<and> messages (run cpython a_config (failing (Exception ''quota'')) a_submission None) =
       [St_error_exn ''An error occurred: '' (Exception ''quota'')]
   \<and> signals (run cpython a_config (failing (Exception ''quota'')) a_submission None) = []
   \<and> snd (run cpython a_config (failing (Exception ''quota'')) a_submission None) = None"
proof -
  have j: "json_loads cpython wrong_shape =
      Inr (PyDict [(''JD Match'', PyStr ''82%''), (''MissingKeywords'', PyList [PyInt 404]),
                   (''Profile Summary'', PyStr ''ok'')])"
    by code_simp
  have d: "snd (display_results
        (PyDict [(''JD Match'', PyStr ''82%''), (''MissingKeywords'', PyList [PyInt 404]),
                 (''Profile Summary'', PyStr ''ok'')])
        \<lparr>processing = None, effects = []\<rparr>) = Raised (TypeError_join_item 0 (PyInt 404))"
    by code_simp
  have q: "reported ''An error occurred: '' (Exception ''quota'') =
      ([St_error_exn ''An error occurred: '' (Exception ''quota'')], None)"
    by code_simp
  from every_run_ends_as_its_path_says [where c = a_config and i = cpython
      and h = "answering wrong_shape" and w = a_submission and session = None
      and e = JSONDecodeError and u = "()" and f = "''%PDF''" and t = "''resume''"
      and p = "''resume / job''" and r = wrong_shape
      and rj = "PyDict [(''JD Match'', PyStr ''82%''), (''MissingKeywords'', PyList [PyInt 404]),
                 (''Profile Summary'', PyStr ''ok'')]"
      and s = "\<lparr>processing = None, effects = []\<rparr>"]
    a_run_is_ready j d
  have 1: "messages (run cpython a_config (answering wrong_shape) a_submission None) =
     [St_error_exn ''An error occurred: '' (TypeError_join_item 0 (PyInt 404))]
   \<and> length (signals (run cpython a_config (answering wrong_shape) a_submission None)) < 3
   \<and> snd (run cpython a_config (answering wrong_shape) a_submission None) = None
   \<and> processing (fst (run cpython a_config (answering wrong_shape) a_submission None)) = Some False"
    by simp
  from every_run_ends_as_its_path_says [where c = a_config and i = cpython
      and h = "failing (Exception ''quota'')" and w = a_submission and session = None
      and e = "Exception ''quota''" and u = "()" and f = "''%PDF''" and t = "''resume''"
      and p = "''resume / job''" and r = "[]" and rj = PyNone
      and s = "\<lparr>processing = None, effects = []\<rparr>"]
    a_run_is_ready q
  have 2: "messages (run cpython a_config (failing (Exception ''quota'')) a_submission None) =
       [St_error_exn ''An error occurred: '' (Exception ''quota'')]
   \<and> signals (run cpython a_config (failing (Exception ''quota'')) a_submission None) = []
   \<and> snd (run cpython a_config (failing (Exception ''quota'')) a_submission None) = None"
    by simp
  from 1 2 show ?thesis by simp
qed

text \<open>
  C4. When the response parses as a JSON object, each of the three fields is looked up
  by its key on its own: a key that is absent gives \<^verbatim>\<open>"N/A"\<close>, the empty list, or
  \<^verbatim>\<open>"No summary available"\<close>, and a key that is present gives its value, whatever
  the other keys are. In particular \<^verbatim>\<open>{"Profile Summary": "ok"}\<close> parses and gives
  \<^verbatim>\<open>"N/A"\<close>, \<^verbatim>\<open>[]\<close> and \<^verbatim>\<open>"ok"\<close>.
\<close>

theorem fields_default_independently:
  assumes "json_loads i r = Inr (PyDict d)"
  shows "(''JD Match'' \<notin> fst ` set d \<longrightarrow> match_percentage (PyDict d) = Inr (PyStr ''N/A''))
     \<and> (''MissingKeywords'' \<notin> fst ` set d \<longrightarrow> missing_keywords (PyDict d) = Inr (PyList []))
     \<and> (''Profile Summary'' \<notin> fst ` set d \<longrightarrow>
          profile_summary (PyDict d) = Inr (PyStr ''No summary available''))
     \<and> (\<forall>v. map_of d ''JD Match'' = Some v \<longrightarrow> match_percentage (PyDict d) = Inr v)
     \<and> (\<forall>v. map_of d ''MissingKeywords'' = Some v \<longrightarrow> missing_keywords (PyDict d) = Inr v)
     \<and> (\<forall>v. map_of d ''Profile Summary'' = Some v \<longrightarrow> profile_summary (PyDict d) = Inr v)
     \<and> json_loads i only_summary = Inr (PyDict [(''Profile Summary'', PyStr ''ok'')])
     \<and> match_percentage (PyDict [(''Profile Summary'', PyStr ''ok'')]) = Inr (PyStr ''N/A'')
     \<and> missing_keywords (PyDict [(''Profile Summary'', PyStr ''ok'')]) = Inr (PyList [])
     \<and> profile_summary (PyDict [(''Profile Summary'', PyStr ''ok'')]) = Inr (PyStr ''ok'')"
proof -
  have absent: "\<And>k dflt. k \<notin> fst ` set d \<Longrightarrow> py_get (PyDict d) k dflt = Inr dflt"
    by (simp add: map_of_eq_None_iff [THEN iffD2])
  have present: "\<And>k v dflt. map_of d k = Some v \<Longrightarrow> py_get (PyDict d) k dflt = Inr v"
    by simp
  have parsed: "json_loads i only_summary = Inr (PyDict [(''Profile Summary'', PyStr ''ok'')])"
    using json_loads_dict_depth [OF assms] by (rule json_loads_only_summary)
  show ?thesis
    using absent present parsed
    by (simp add: match_percentage_def missing_keywords_def profile_summary_def)
qed

theorem fields_default_witness:
  "signals (run cpython a_config (answering only_summary) a_submission None) =
     [St_metric ''Match Score'' (PyStr ''N/A''),
      St_write (PyStr ''No critical missing keywords found!''),
      St_write (PyStr ''ok'')]
   \<and> messages (run cpython a_config (answering only_summary) a_submission None) = []
   \<and> json_loads cpython only_summary = Inr (PyDict [(''Profile Summary'', PyStr ''ok'')])
   \<and> match_percentage (PyDict [(''Profile Summary'', PyStr ''ok'')]) = Inr (PyStr ''N/A'')
   \<and> missing_keywords (PyDict [(''Profile Summary'', PyStr ''ok'')]) = Inr (PyList [])
   \<and> profile_summary (PyDict [(''Profile Summary'', PyStr ''ok'')]) = Inr (PyStr ''ok'')"
proof -
  have parsed: "json_loads cpython only_summary = Inr (PyDict [(''Profile Summary'', PyStr ''ok'')])"
    by code_simp
  have "signals (run cpython a_config (answering only_summary) a_submission None) =
     [St_metric ''Match Score'' (PyStr ''N/A''),
      St_write (PyStr ''No critical missing keywords found!''),
      St_write (PyStr ''ok'')]"
    by code_simp
  moreover have "messages (run cpython a_config (answering only_summary) a_submission None) = []"
    by code_simp
  ultimately show ?thesis
    using fields_default_independently [OF parsed] by simp
qed

text \<open>
  C5. The response with all three keys parses to the object with these three items; the
  lookups give \<^verbatim>\<open>"82%"\<close>, the list of \<^verbatim>\<open>"Docker"\<close> and \<^verbatim>\<open>"Kubernetes"\<close>, and
  \<^verbatim>\<open>"Strong backend profile"\<close>, unchanged; and a run on it emits exactly these as its
  three signals, with no message. This holds on every interpreter that has the two
  calls left which the object and the list inside it take.
\<close>

theorem full_response_extracted_unchanged:
  assumes "2 \<le> recursion_limit i"
  shows "json_loads i full_response =
     Inr (PyDict [(''JD Match'', PyStr ''82%''),
                  (''MissingKeywords'', PyList [PyStr ''Docker'', PyStr ''Kubernetes'']),
                  (''Profile Summary'', PyStr ''Strong backend profile'')])
   \<and> (case json_loads i full_response of
        Inl e \<Rightarrow> False
      | Inr response_json \<Rightarrow>
          match_percentage response_json = Inr (PyStr ''82%'')
          \<and> missing_keywords response_json = Inr (PyList [PyStr ''Docker'', PyStr ''Kubernetes''])
          \<and> profile_summary response_json = Inr (PyStr ''Strong backend profile''))
   \<and> signals (run i a_config (answering full_response) a_submission None) =
       [St_metric ''Match Score'' (PyStr ''82%''),
        St_write (PyStr ''Docker, Kubernetes''),
        St_write (PyStr ''Strong backend profile'')]
   \<and> messages (run i a_config (answering full_response) a_submission None) = []"
proof -
  have parsed: "json_loads i full_response =
     Inr (PyDict [(''JD Match'', PyStr ''82%''),
                  (''MissingKeywords'', PyList [PyStr ''Docker'', PyStr ''Kubernetes'']),
                  (''Profile Summary'', PyStr ''Strong backend profile'')])"
    using assms by (rule json_loads_full_response)
  have "json_loads cpython full_response =
     Inr (PyDict [(''JD Match'', PyStr ''82%''),
                  (''MissingKeywords'', PyList [PyStr ''Docker'', PyStr ''Kubernetes'']),
                  (''Profile Summary'', PyStr ''Strong backend profile'')])"
    by (rule json_loads_full_response) (simp add: cpython_def)
  with parsed have "json_loads i full_response = json_loads cpython full_response" by simp
  then have same: "run i a_config (answering full_response) a_submission None =
      run cpython a_config (answering full_response) a_submission None"
    by (rule run_interpreter)
  have "signals (run cpython a_config (answering full_response) a_submission None) =
       [St_metric ''Match Score'' (PyStr ''82%''),
        St_write (PyStr ''Docker, Kubernetes''),
        St_write (PyStr ''Strong backend profile'')]"
    by code_simp
  moreover have "messages (run cpython a_config (answering full_response) a_submission None) = []"
    by code_simp
  ultimately show ?thesis
    by (simp add: parsed same match_percentage_def missing_keywords_def profile_summary_def)
qed

theorem full_response_witness:
  "2 \<le> recursion_limit cpython
   \<and> json_loads cpython full_response =
     Inr (PyDict [(''JD Match'', PyStr ''82%''),
                  (''MissingKeywords'', PyList [PyStr ''Docker'', PyStr ''Kubernetes'']),
                  (''Profile Summary'', PyStr ''Strong backend profile'')])
   \<and> signals (run cpython a_config (answering full_response) a_submission None) =
       [St_metric ''Match Score'' (PyStr ''82%''),
        St_write (PyStr ''Docker, Kubernetes''),
        St_write (PyStr ''Strong backend profile'')]
   \<and> messages (run cpython a_config (answering full_response) a_submission None) = []"
proof -
  have l: "2 \<le> recursion_limit cpython" by (simp add: cpython_def)
  from l full_response_extracted_unchanged [OF l] show ?thesis by simp
qed

text \<open>
  C6. A submission with an empty job description or with no file, once the client is
  configured, shows one validation warning (for the job description when both are
  missing) as its only message and last display, never sets the guard, and calls none
  of the PDF extractor, the prompt builder and the model client.
\<close>

theorem incomplete_submission_short_circuits:
  assumes "truthy (get_api_key c)"
    and "configure_genai h (get_api_key c) = Inr u"
    and "button w"
    and "text_area w = [] \<or> file_uploader w = None"
  shows "messages (run i c h w session) =
       [St_warning (if text_area w = [] then ''Please provide a job description.''
                    else ''Please upload a resume in PDF format.'')]
     \<and> last (displays (run i c h w session)) =
         St_warning (if text_area w = [] then ''Please provide a job description.''
                     else ''Please upload a resume in PDF format.'')
     \<and> Set_processing True \<notin> set (effects (fst (run i c h w session)))
     \<and> stages (run i c h w session) = []
     \<and> signals (run i c h w session) = []
     \<and> snd (run i c h w session) = None"
  using assms by (rule run_incomplete)

theorem incomplete_submission_witness:
  "messages (run cpython a_config (answering []) (a_submission\<lparr>text_area := []\<rparr>) None) =
     [St_warning ''Please provide a job description.'']
   \<and> stages (run cpython a_config (answering []) (a_submission\<lparr>text_area := []\<rparr>) None) = []
   \<and> Set_processing True \<notin> set (effects (fst (run cpython a_config (answering []) (a_submission\<lparr>text_area := []\<rparr>) None)))
   \<and> messages (run cpython a_config (answering []) (a_submission\<lparr>file_uploader := None\<rparr>) None) =
     [St_warning ''Please upload a resume in PDF format.'']
   \<and> stages (run cpython a_config (answering []) (a_submission\<lparr>file_uploader := None\<rparr>) None) = []
   \<and> Set_processing True \<notin> set (effects (fst (run cpython a_config (answering []) (a_submission\<lparr>file_uploader := None\<rparr>) None)))"
proof -
  have k: "truthy (get_api_key a_config)"
    by (simp add: get_api_key_def st_secrets_def a_config_def)
  have g: "configure_genai (answering []) (get_api_key a_config) = Inr ()"
    by (simp add: answering_def)
  have 1: "button (a_submission\<lparr>text_area := []\<rparr>)"
    "text_area (a_submission\<lparr>text_area := []\<rparr>) = []
      \<or> file_uploader (a_submission\<lparr>text_area := []\<rparr>) = None"
    by (simp_all add: a_submission_def)
  have 2: "button (a_submission\<lparr>file_uploader := None\<rparr>)"
    "text_area (a_submission\<lparr>file_uploader := None\<rparr>) = []
      \<or> file_uploader (a_submission\<lparr>file_uploader := None\<rparr>) = None"
    "text_area (a_submission\<lparr>file_uploader := None\<rparr>) \<noteq> []"
    by (simp_all add: a_submission_def)
  from incomplete_submission_short_circuits [OF k g 1, of cpython None]
    incomplete_submission_short_circuits [OF k g 2(1,2), of cpython None] 2(3)
  show ?thesis by simp
qed

text \<open>
  C7. The credential is the secret when the secrets have one, whatever the environment
  holds; otherwise the environment variable, a variable of the process before one of the
  \<^verbatim>\<open>.env\<close> file; and when none of the three has it the credential is \<^verbatim>\<open>None\<close> and all
  the run does, apart from initialising the session, is to show the configuration error:
  the client is not configured and no stage of the pipeline is called.
\<close>

theorem credential_resolution_order:
  "(secrets c = Some m \<and> m ''GOOGLE_API_KEY'' = Some v \<longrightarrow> get_api_key c = v)
   \<and> ((secrets c = None \<or> (secrets c = Some m \<and> m ''GOOGLE_API_KEY'' = None))
        \<and> environ c ''GOOGLE_API_KEY'' = Some x \<longrightarrow> get_api_key c = PyStr x)
   \<and> ((secrets c = None \<or> (secrets c = Some m \<and> m ''GOOGLE_API_KEY'' = None))
        \<and> environ c ''GOOGLE_API_KEY'' = None
        \<and> dotenv c = Some f \<and> f ''GOOGLE_API_KEY'' = Some x \<longrightarrow> get_api_key c = PyStr x)
   \<and> ((secrets c = None \<or> (secrets c = Some m \<and> m ''GOOGLE_API_KEY'' = None))
        \<and> environ c ''GOOGLE_API_KEY'' = None
        \<and> (dotenv c = None \<or> (dotenv c = Some f \<and> f ''GOOGLE_API_KEY'' = None)) \<longrightarrow>
        get_api_key c = PyNone
        \<and> effects (fst (run i c h w session)) =
            (if session = None then [Set_processing False] else []) @
            [St_error ''API Key not found. Please check your configuration.'']
        \<and> snd (run i c h w session) = None)"
proof -
  have from_secrets: "secrets c = Some m \<and> m ''GOOGLE_API_KEY'' = Some v \<longrightarrow> get_api_key c = v"
    by (simp add: get_api_key_def st_secrets_def)
  have fallback: "secrets c = None \<or> (secrets c = Some m \<and> m ''GOOGLE_API_KEY'' = None) \<Longrightarrow>
      get_api_key c = os_getenv (load_dotenv c) ''GOOGLE_API_KEY''"
    by (auto simp: get_api_key_def st_secrets_def)
  have variable: "environ c ''GOOGLE_API_KEY'' = Some x \<Longrightarrow>
      os_getenv (load_dotenv c) ''GOOGLE_API_KEY'' = PyStr x"
    by (simp add: os_getenv_def load_dotenv_def map_add_def split: option.splits)
  have from_file: "environ c ''GOOGLE_API_KEY'' = None \<Longrightarrow> dotenv c = Some f \<Longrightarrow>
      f ''GOOGLE_API_KEY'' = Some x \<Longrightarrow> os_getenv (load_dotenv c) ''GOOGLE_API_KEY'' = PyStr x"
    by (simp add: os_getenv_def load_dotenv_def map_add_def)
  have neither: "environ c ''GOOGLE_API_KEY'' = None \<Longrightarrow>
      dotenv c = None \<or> (dotenv c = Some f \<and> f ''GOOGLE_API_KEY'' = None) \<Longrightarrow>
      os_getenv (load_dotenv c) ''GOOGLE_API_KEY'' = PyNone"
    by (auto simp: os_getenv_def load_dotenv_def map_add_def)
  have fails: "get_api_key c = PyNone \<Longrightarrow>
        effects (fst (run i c h w session)) =
            (if session = None then [Set_processing False] else []) @
            [St_error ''API Key not found. Please check your configuration.'']
        \<and> snd (run i c h w session) = None"
    using run_without_credential [of c i h w session] by simp
  from from_secrets fallback variable from_file neither fails show ?thesis
    by metis
qed

theorem credential_resolution_witness:
  "get_api_key empty_secret = PyStr []
   \<and> get_api_key empty_variable = PyStr []
   \<and> get_api_key dotenv_only = PyStr ''key''
   \<and> get_api_key no_credential = PyNone
   \<and> effects (fst (run cpython no_credential (answering []) a_submission None)) =
       [Set_processing False, St_error ''API Key not found. Please check your configuration.'']
   \<and> snd (run cpython no_credential (answering []) a_submission None) = None"
  using
    credential_resolution_order [of empty_secret "[''GOOGLE_API_KEY'' \<mapsto> PyStr []]" "PyStr []"
      "[]" Map.empty cpython "answering []" a_submission None]
    credential_resolution_order [of empty_variable Map.empty PyNone
      "[]" "[''GOOGLE_API_KEY'' \<mapsto> ''key'']" cpython "answering []" a_submission None]
    credential_resolution_order [of dotenv_only Map.empty PyNone
      "''key''" "[''GOOGLE_API_KEY'' \<mapsto> ''key'']" cpython "answering []" a_submission None]
    credential_resolution_order [of no_credential Map.empty PyNone
      "[]" Map.empty cpython "answering []" a_submission None]
  by (simp add: empty_secret_def empty_variable_def dotenv_only_def no_credential_def)

text \<open>
  C8 as stated fails. The keyword \<^verbatim>\<open>"\ud800"\<close> is a string of valid JSON, and the list
  that holds it is not empty; \<^verbatim>\<open>", ".join\<close> gives the text, but \<^verbatim>\<open>st.write\<close> cannot
  encode it and raises: the run emits the match score, no keyword signal, and the
  generic message.
\<close>

theorem lone_surrogate_counterexample:
  "json_loads cpython lone_surrogate =
     Inr (PyDict [(''MissingKeywords'', PyList [PyStr [CHR 0xED, CHR 0xA0, CHR 0x80]])])
   \<and> keywords_text (PyList [PyStr [CHR 0xED, CHR 0xA0, CHR 0x80]]) =
       Inr [CHR 0xED, CHR 0xA0, CHR 0x80]
   \<and> signals (run cpython a_config (answering lone_surrogate) a_submission None) =
       [St_metric ''Match Score'' (PyStr ''N/A'')]
   \<and> messages (run cpython a_config (answering lone_surrogate) a_submission None) =
       [St_error_exn ''An error occurred: '' UnicodeEncodeError]"
proof -
  have "json_loads cpython lone_surrogate =
     Inr (PyDict [(''MissingKeywords'', PyList [PyStr [CHR 0xED, CHR 0xA0, CHR 0x80]])])"
    by code_simp
  moreover have "keywords_text (PyList [PyStr [CHR 0xED, CHR 0xA0, CHR 0x80]]) =
       Inr [CHR 0xED, CHR 0xA0, CHR 0x80]"
    by code_simp
  moreover have "signals (run cpython a_config (answering lone_surrogate) a_submission None) =
       [St_metric ''Match Score'' (PyStr ''N/A'')]"
    by code_simp
  moreover have "messages (run cpython a_config (answering lone_surrogate) a_submission None) =
       [St_error_exn ''An error occurred: '' UnicodeEncodeError]"
    by code_simp
  ultimately show ?thesis by simp
qed

text \<open>
  C8, amended. When the keywords are a list of strings, the text of the keyword signal
  is the first keyword followed by each further keyword behind the separator
  \<^verbatim>\<open>", "\<close>, and the fixed text \<^verbatim>\<open>No critical missing keywords found!\<close> when the list
  is empty. When the match score can be displayed and that text can be encoded, the text
  is the second signal, after the match score; the summary is the third when it can be
  displayed, and otherwise displaying it raises a \<^verbatim>\<open>UnicodeEncodeError\<close> after the
  two. When the text cannot be encoded, the match score is the only signal and
  \<^verbatim>\<open>st.write\<close> raises a \<^verbatim>\<open>UnicodeEncodeError\<close>.
\<close>

theorem keywords_joined_or_fixed_message:
  assumes "missing_keywords rj = Inr (PyList (map PyStr ks))"
    and "match_percentage rj = Inr mp" and "st_metric ''Match Score'' mp = Inr m"
    and "profile_summary rj = Inr ps"
  shows "keywords_text (PyList (map PyStr ks)) =
       Inr (case ks of
              [] \<Rightarrow> ''No critical missing keywords found!''
            | k # ks' \<Rightarrow> k @ concat (map (\<lambda>k'. '', '' @ k') ks'))
     \<and> (encodable (case ks of
                      [] \<Rightarrow> ''No critical missing keywords found!''
                    | k # ks' \<Rightarrow> k @ concat (map (\<lambda>k'. '', '' @ k') ks'))
          \<and> st_write ps = Inr shown \<longrightarrow>
          filter is_signal (effects (fst (display_results rj s))) =
            filter is_signal (effects s) @
              [St_metric ''Match Score'' mp,
               St_write (PyStr (case ks of
                                  [] \<Rightarrow> ''No critical missing keywords found!''
                                | k # ks' \<Rightarrow> k @ concat (map (\<lambda>k'. '', '' @ k') ks'))),
               St_write ps]
          \<and> snd (display_results rj s) = Completed)
     \<and> (encodable (case ks of
                      [] \<Rightarrow> ''No critical missing keywords found!''
                    | k # ks' \<Rightarrow> k @ concat (map (\<lambda>k'. '', '' @ k') ks'))
          \<and> st_write ps = Inl e \<longrightarrow>
          filter is_signal (effects (fst (display_results rj s))) =
            filter is_signal (effects s) @
              [St_metric ''Match Score'' mp,
               St_write (PyStr (case ks of
                                  [] \<Rightarrow> ''No critical missing keywords found!''
                                | k # ks' \<Rightarrow> k @ concat (map (\<lambda>k'. '', '' @ k') ks')))]
          \<and> snd (display_results rj s) = Raised UnicodeEncodeError)
     \<and> (\<not> encodable (case ks of
                        [] \<Rightarrow> ''No critical missing keywords found!''
                      | k # ks' \<Rightarrow> k @ concat (map (\<lambda>k'. '', '' @ k') ks')) \<longrightarrow>
          filter is_signal (effects (fst (display_results rj s))) =
            filter is_signal (effects s) @ [St_metric ''Match Score'' mp]
          \<and> snd (display_results rj s) = Raised UnicodeEncodeError)"
proof -
  have t: "keywords_text (PyList (map PyStr ks)) =
       Inr (case ks of
              [] \<Rightarrow> ''No critical missing keywords found!''
            | k # ks' \<Rightarrow> k @ concat (map (\<lambda>k'. '', '' @ k') ks'))"
    by (cases ks) (simp_all add: keywords_text_def str_items_strings join_Cons del: join.simps)
  from display_results_keywords [OF assms(2,3,1) t assms(4), of s] t
    st_write_Inl [of ps e] st_write_Inr [of ps shown]
  show ?thesis by simp
qed

theorem keywords_joined_witness:
  "keywords_text (PyList (map PyStr [''Docker'', ''Kubernetes''])) = Inr ''Docker, Kubernetes''
   \<and> filter is_signal (effects (fst (display_results
         (PyDict [(''JD Match'', PyStr ''82%''),
                  (''MissingKeywords'', PyList [PyStr ''Docker'', PyStr ''Kubernetes''])])
         \<lparr>processing = Some True, effects = []\<rparr>))) =
       [St_metric ''Match Score'' (PyStr ''82%''), St_write (PyStr ''Docker, Kubernetes''),
        St_write (PyStr ''No summary available'')]
   \<and> filter is_signal (effects (fst (display_results
         (PyDict [(''MissingKeywords'', PyList [PyStr [CHR 0xED, CHR 0xA0, CHR 0x80]])])
         \<lparr>processing = Some True, effects = []\<rparr>))) =
       [St_metric ''Match Score'' (PyStr ''N/A'')]
   \<and> snd (display_results
         (PyDict [(''MissingKeywords'', PyList [PyStr [CHR 0xED, CHR 0xA0, CHR 0x80]])])
         \<lparr>processing = Some True, effects = []\<rparr>) = Raised UnicodeEncodeError"
proof -
  let ?rj = "PyDict [(''JD Match'', PyStr ''82%''),
                  (''MissingKeywords'', PyList [PyStr ''Docker'', PyStr ''Kubernetes''])]"
  let ?bad = "PyDict [(''MissingKeywords'', PyList [PyStr [CHR 0xED, CHR 0xA0, CHR 0x80]])]"
  have 1: "missing_keywords ?rj = Inr (PyList (map PyStr [''Docker'', ''Kubernetes'']))"
    "match_percentage ?rj = Inr (PyStr ''82%'')"
    "profile_summary ?rj = Inr (PyStr ''No summary available'')"
    by (simp_all add: missing_keywords_def match_percentage_def profile_summary_def)
  have 2: "missing_keywords ?bad = Inr (PyList (map PyStr [[CHR 0xED, CHR 0xA0, CHR 0x80]]))"
    "match_percentage ?bad = Inr (PyStr ''N/A'')"
    "profile_summary ?bad = Inr (PyStr ''No summary available'')"
    by (simp_all add: missing_keywords_def match_percentage_def profile_summary_def)
  have m: "st_metric ''Match Score'' (PyStr ''82%'') = Inr (St_metric ''Match Score'' (PyStr ''82%''))"
    "st_metric ''Match Score'' (PyStr ''N/A'') = Inr (St_metric ''Match Score'' (PyStr ''N/A''))"
    "st_write (PyStr ''No summary available'') = Inr (St_write (PyStr ''No summary available''))"
    by code_simp+
  have e: "encodable ''Docker, Kubernetes''" "\<not> encodable [CHR 0xED, CHR 0xA0, CHR 0x80]"
    by code_simp+
  from keywords_joined_or_fixed_message [OF 1(1,2) m(1) 1(3),
      of "St_write (PyStr ''No summary available'')" "\<lparr>processing = Some True, effects = []\<rparr>"
        UnicodeEncodeError]
    keywords_joined_or_fixed_message [OF 2(1,2) m(2) 2(3),
      of "St_write (PyStr ''No summary available'')" "\<lparr>processing = Some True, effects = []\<rparr>"
        UnicodeEncodeError]
    m(3) e
  show ?thesis by simp
qed



text \<open>
  C10. A credential that is the empty string, whether it is the secret or, with no
  secret, the environment variable (of the process or of the \<^verbatim>\<open>.env\<close> file), makes the
  run the very run of a configuration with no credential at all: the configuration
  error is shown, the client is not configured and no stage is called.
\<close>

theorem empty_credential_is_absent_credential:
  assumes "(secrets c = Some m \<and> m ''GOOGLE_API_KEY'' = Some (PyStr []))
     \<or> ((secrets c = None \<or> (secrets c = Some m \<and> m ''GOOGLE_API_KEY'' = None))
         \<and> (environ c ''GOOGLE_API_KEY'' = Some []
            \<or> (environ c ''GOOGLE_API_KEY'' = None
                \<and> dotenv c = Some f \<and> f ''GOOGLE_API_KEY'' = Some [])))"
  shows "get_api_key c = PyStr []
     \<and> run i c h w session = run i no_credential h w session
     \<and> effects (fst (run i c h w session)) =
         (if session = None then [Set_processing False] else []) @
         [St_error ''API Key not found. Please check your configuration.'']
     \<and> snd (run i c h w session) = None"
proof -
  have k: "get_api_key c = PyStr []"
    using assms
    by (auto simp: get_api_key_def st_secrets_def os_getenv_def load_dotenv_def map_add_def
      split: option.splits)
  have n: "get_api_key no_credential = PyNone"
    by (simp add: get_api_key_def st_secrets_def os_getenv_def load_dotenv_def no_credential_def)
  from k n run_without_credential [of c i h w session]
    run_without_credential [of no_credential i h w session]
  show ?thesis by simp
qed

theorem empty_credential_witness:
  "run cpython empty_secret (answering []) a_submission None =
     run cpython no_credential (answering []) a_submission None
   \<and> run cpython empty_variable (answering []) a_submission None =
     run cpython no_credential (answering []) a_submission None
   \<and> effects (fst (run cpython empty_secret (answering []) a_submission None)) =
       [Set_processing False, St_error ''API Key not found. Please check your configuration.'']
   \<and> effects (fst (run cpython empty_variable (answering []) a_submission None)) =
       [Set_processing False, St_error ''API Key not found. Please check your configuration.'']"
proof -
  have 1: "(secrets empty_secret = Some [''GOOGLE_API_KEY'' \<mapsto> PyStr []]
       \<and> [''GOOGLE_API_KEY'' \<mapsto> PyStr []] ''GOOGLE_API_KEY'' = Some (PyStr []))
     \<or> ((secrets empty_secret = None
          \<or> (secrets empty_secret = Some [''GOOGLE_API_KEY'' \<mapsto> PyStr []]
              \<and> [''GOOGLE_API_KEY'' \<mapsto> PyStr []] ''GOOGLE_API_KEY'' = None))
         \<and> (environ empty_secret ''GOOGLE_API_KEY'' = Some []
            \<or> (environ empty_secret ''GOOGLE_API_KEY'' = None
                \<and> dotenv empty_secret = Some Map.empty
                \<and> Map.empty ''GOOGLE_API_KEY'' = Some [])))"
    by (simp add: empty_secret_def)
  have 2: "(secrets empty_variable = Some Map.empty
       \<and> Map.empty ''GOOGLE_API_KEY'' = Some (PyStr []))
     \<or> ((secrets empty_variable = None
          \<or> (secrets empty_variable = Some Map.empty \<and> Map.empty ''GOOGLE_API_KEY'' = None))
         \<and> (environ empty_variable ''GOOGLE_API_KEY'' = Some []
            \<or> (environ empty_variable ''GOOGLE_API_KEY'' = None
                \<and> dotenv empty_variable = Some Map.empty
                \<and> Map.empty ''GOOGLE_API_KEY'' = Some [])))"
    by (simp add: empty_variable_def)
  from empty_credential_is_absent_credential [OF 1, of cpython "answering []" a_submission None]
    empty_credential_is_absent_credential [OF 2, of cpython "answering []" a_submission None]
  show ?thesis by auto
qed

end
